theory Spec2Isabelle
  imports Complex_Main
begin

section \<open>The Bobo negotiation agents\<close>

text \<open>
  A shallow embedding of the two agents of the repository:
  \<^item> \<^verbatim>\<open>agents/bobo_agent/bobo_agent.py\<close> (class \<^verbatim>\<open>BoboAgent\<close>), which classifies the
    opponent with two boolean flags, and
  \<^item> \<^verbatim>\<open>agents/bobo_agent_dynamic_flags/bobo_agent.py\<close> (class \<^verbatim>\<open>BoboAgentDynamic\<close>),
    which uses two continuous weights.

  Conventions of the embedding.
  \<^item> Progress, predicted utilities and scores are Python floats. They are modelled as
    \<^typ>\<open>real\<close>, and in arithmetic and in comparisons between floats a literal such as
    \<^verbatim>\<open>0.87\<close> is the rational it denotes: the rounding of float arithmetic is not modelled.
  \<^item> The own utility \<^verbatim>\<open>self.profile.getUtility(bid)\<close> is a \<^verbatim>\<open>Decimal\<close>, an exact decimal
    fraction, modelled as \<^typ>\<open>real\<close>. Python compares a \<^verbatim>\<open>Decimal\<close> with a float by their exact
    values, and a float literal denotes the double nearest to it. So in the acceptance tests
    \<^verbatim>\<open>offered_util >= 0.9\<close>, \<^verbatim>\<open>offered_util > 0.6\<close> and their like the threshold is that
    double (\<open>float_0_9\<close>, \<open>float_0_6\<close>, ...), not the decimal fraction. Where the source
    converts first, as in \<^verbatim>\<open>float(offered_util) > 0.85\<close>, floats are compared.
  \<^item> The attributes of \<^verbatim>\<open>self\<close> that the callbacks mutate are the fields of a record that is
    passed in and returned.
  \<^item> What the runtime supplies is a parameter: \<open>profile\<close> is \<^verbatim>\<open>self.profile.getUtility\<close>,
    \<open>progress\<close> is the value of \<^verbatim>\<open>self.progress.get(time() * 1000)\<close> read by the call at hand,
    \<open>all_bids\<close> is \<^verbatim>\<open>AllBidsList(domain)\<close>, and every value of \<^verbatim>\<open>randint\<close> comes from an
    explicit source of random numbers.
  \<^item> The class \<^verbatim>\<open>OpponentModel\<close> (module \<^verbatim>\<open>utils.opponent_model\<close>) is imported by both
    agents; it is a parameter too, a record of its constructor and its two methods.
  \<^item> An object is true in a Python condition unless it is \<^verbatim>\<open>None\<close>: neither agent relies on
    \<^verbatim>\<open>__bool__\<close> or \<^verbatim>\<open>__len__\<close> of a bid or of the opponent model.
\<close>

subsection \<open>Messages and the opponent model\<close>

datatype py_error = ValueError

text \<open>
  A party is known by its name, which is also what \<^verbatim>\<open>str\<close> returns for it. Of the actions
  of the protocol the agents process offers only; \<open>Accept\<close> stands for every other action.
\<close>

type_synonym party_id = string

datatype 'bid action = Offer party_id 'bid | Accept party_id 'bid

fun getActor :: "'bid action \<Rightarrow> party_id" where
  "getActor (Offer a b) = a"
| "getActor (Accept a b) = a"

datatype 'bid inform =
    Settings party_id
  | ActionDone "'bid action"
  | YourTurn
  | Finished
  | UnknownInform

text \<open>
  The interface of \<^verbatim>\<open>OpponentModel\<close>: \<open>OpponentModel\<close> is the model that the constructor
  builds for the domain of the session, \<open>update\<close> is \<^verbatim>\<open>model.update(bid)\<close> (it returns the
  mutated model) and \<open>get_predicted_utility\<close> is \<^verbatim>\<open>model.get_predicted_utility(bid)\<close>.
\<close>

record ('bid, 'm) opponent_model_class =
  OpponentModel :: 'm
  update :: "'m \<Rightarrow> 'bid \<Rightarrow> 'm"
  get_predicted_utility :: "'m \<Rightarrow> 'bid \<Rightarrow> real"

subsection \<open>The agent with boolean flags\<close>

record ('bid, 'm) bobo_agent =
  me :: "party_id option"
  other :: "string option"
  opponent_utils :: "real list"
  opponent_is_greedy :: bool
  opponent_is_nice :: bool
  last_received_bid :: "'bid option"
  opponent_model :: "'m option"

text \<open>The state that \<^verbatim>\<open>__init__\<close> builds.\<close>

definition BoboAgent :: "('bid, 'm) bobo_agent" where
  "BoboAgent =
     \<lparr>me = None, other = None, opponent_utils = [], opponent_is_greedy = False,
      opponent_is_nice = False, last_received_bid = None, opponent_model = None\<rparr>"

text \<open>\<^verbatim>\<open>xs[-5:]\<close>: the last five elements, or all of them when there are fewer.\<close>

definition recent_window :: "real list \<Rightarrow> real list" where
  "recent_window xs = drop (length xs - 5) xs"

definition average :: "real list \<Rightarrow> real" where
  "average xs = sum_list xs / real (length xs)"

fun opponent_action ::
  "('bid, 'm) opponent_model_class \<Rightarrow> ('bid, 'm) bobo_agent \<Rightarrow> 'bid action \<Rightarrow> ('bid, 'm) bobo_agent"
where
  "opponent_action om s (Accept actor bid) = s"
| "opponent_action om s (Offer actor bid) =
     (let model0 = (case opponent_model s of None \<Rightarrow> OpponentModel om | Some m \<Rightarrow> m);
          model1 = update om model0 bid;
          util = get_predicted_utility om model1 bid;
          utils = opponent_utils s @ [util];
          s1 = s\<lparr>opponent_model := Some model1, last_received_bid := Some bid,
                 opponent_utils := utils\<rparr>
      in if length utils \<ge> 3 then
           (let avg_util = average (recent_window utils);
                s2 = (if avg_util > 0.87 then s1\<lparr>opponent_is_greedy := True\<rparr> else s1)
            in if 0.6 < avg_util \<and> avg_util < 0.9 then s2\<lparr>opponent_is_nice := True\<rparr> else s2)
         else s1)"

text \<open>
  The doubles that the float literals of the acceptance tests denote. Between 0.5 and 1 the
  doubles are the multiples of \<open>2 ^ 53\<close>-ths, and each constant below is the multiple
  nearest to its literal (lemma \<open>float_literals_nearest\<close>). The literal \<^verbatim>\<open>0.75\<close> is a double
  itself.
\<close>

definition float_0_6 :: real where
  "float_0_6 = 5404319552844595 / 2 ^ 53"

definition float_0_65 :: real where
  "float_0_65 = 5854679515581645 / 2 ^ 53"

definition float_0_7 :: real where
  "float_0_7 = 6305039478318694 / 2 ^ 53"

definition float_0_8 :: real where
  "float_0_8 = 7205759403792794 / 2 ^ 53"

definition float_0_85 :: real where
  "float_0_85 = 7656119366529843 / 2 ^ 53"

definition float_0_9 :: real where
  "float_0_9 = 8106479329266893 / 2 ^ 53"

text \<open>
  The block of \<^verbatim>\<open>accept_condition\<close> that runs when an opponent model exists. \<open>Some r\<close> is
  \<^verbatim>\<open>return r\<close>; \<open>None\<close> means that no branch returned and control falls through to the
  deadline ladder. The tests \<^verbatim>\<open>float(offered_util) > 0.85\<close> and
  \<^verbatim>\<open>float(offered_util) * float(opponent_util) > 0.75\<close> are on floats.
\<close>

definition accept_with_model :: "real \<Rightarrow> real \<Rightarrow> real \<Rightarrow> bool \<Rightarrow> bool \<Rightarrow> bool option" where
  "accept_with_model progress offered_util opponent_util greedy nice =
     (if greedy then
        (if progress > 0.99 \<and> offered_util > float_0_6 then Some True
         else if progress > 0.97 \<and> offered_util > float_0_7 then Some True
         else Some False)
      else if nice \<and> progress > 0.95 \<and> offered_util > 0.75 \<and> opponent_util > 0.7 then Some True
      else if progress > 0.6 \<and> offered_util > float_0_6 \<and> opponent_util < 0.5 then Some True
      else if progress > 0.97 \<and> offered_util > 0.85 \<and> opponent_util < 0.6 then Some True
      else if \<not> greedy \<and> offered_util * opponent_util > 0.75 then Some True
      else if progress > 0.95 \<and> opponent_util > 0.9 \<and> offered_util < float_0_7 then Some False
      else if progress > 0.93 \<and> offered_util > float_0_65 \<and> opponent_util < 0.5 then Some True
      else None)"

definition accept_near_deadline :: "real \<Rightarrow> real \<Rightarrow> bool" where
  "accept_near_deadline progress offered_util =
     (if progress > 0.98 then offered_util > float_0_7
      else if progress > 0.97 then offered_util > 0.75
      else if progress > 0.96 then offered_util > float_0_8
      else if progress > 0.95 then offered_util > float_0_85
      else False)"

definition accept_condition ::
  "('bid \<Rightarrow> real) \<Rightarrow> ('bid, 'm) opponent_model_class \<Rightarrow> real \<Rightarrow> ('bid, 'm) bobo_agent \<Rightarrow>
   'bid option \<Rightarrow> bool"
where
  "accept_condition profile om progress s received =
     (case received of
        None \<Rightarrow> False
      | Some bid \<Rightarrow>
          (let offered_util = profile bid
           in if offered_util \<ge> float_0_9 then True
              else if opponent_is_greedy s \<and> offered_util > float_0_65 then True
              else
                (case (case opponent_model s of
                         None \<Rightarrow> None
                       | Some m \<Rightarrow>
                           accept_with_model progress offered_util
                             (get_predicted_utility om m bid)
                             (opponent_is_greedy s) (opponent_is_nice s)) of
                   Some r \<Rightarrow> r
                 | None \<Rightarrow> accept_near_deadline progress offered_util)))"

text \<open>
  \<^verbatim>\<open>score_bid\<close>, called by \<^verbatim>\<open>find_bid\<close> with the defaults \<^verbatim>\<open>alpha = 0.95\<close> and
  \<^verbatim>\<open>eps = 0.1\<close>, so that \<^verbatim>\<open>progress ** (1 / eps)\<close> is the tenth power of the progress.
\<close>

definition time_pressure :: "real \<Rightarrow> real" where
  "time_pressure progress = 1.0 - progress ^ 10"

definition score_bid ::
  "('bid \<Rightarrow> real) \<Rightarrow> ('bid, 'm) opponent_model_class \<Rightarrow> real \<Rightarrow> ('bid, 'm) bobo_agent \<Rightarrow>
   'bid \<Rightarrow> real"
where
  "score_bid profile om progress s bid =
     (case opponent_model s of
        None \<Rightarrow> 0.95 * time_pressure progress * profile bid
      | Some m \<Rightarrow>
          (let opponent_utility = get_predicted_utility om m bid
           in if \<not> opponent_is_greedy s \<and> opponent_utility < 0.1 - 0.08 * progress then 0.0
              else
                (let alpha = (if opponent_is_nice s then 0.7
                              else if opponent_is_greedy s then 0.95
                              else 0.95 - 0.45 * progress)
                 in if opponent_is_greedy s then profile bid
                    else
                      (let our_utility = profile bid;
                           score = alpha * time_pressure progress * our_utility;
                           opponent_score =
                             (1.0 - alpha * time_pressure progress) * get_predicted_utility om m bid
                       in score + opponent_score))))"

text \<open>
  \<^verbatim>\<open>all_bids.get(randint(0, all_bids.size() - 1))\<close>. The random source gives a natural number
  \<open>r\<close>, and \<^verbatim>\<open>randint\<close> maps it into the range; on an empty bid space \<^verbatim>\<open>randint(0, -1)\<close>
  raises \<^verbatim>\<open>ValueError\<close>, which \<^verbatim>\<open>find_bid\<close> checks before the loop below is entered.
\<close>

definition random_bid :: "'bid list \<Rightarrow> nat \<Rightarrow> 'bid" where
  "random_bid all_bids r = all_bids ! (r mod length all_bids)"

text \<open>
  One iteration of the sampling loop of \<^verbatim>\<open>find_bid\<close>, on the pair
  \<^verbatim>\<open>(best_bid_score, best_bid)\<close>. Iteration \<open>i\<close> draws the random number \<open>rnd i\<close>, and its call
  of \<^verbatim>\<open>score_bid\<close> reads the progress \<open>clock i\<close>.
\<close>

definition find_bid_step ::
  "('bid \<Rightarrow> real) \<Rightarrow> ('bid, 'm) opponent_model_class \<Rightarrow> ('bid, 'm) bobo_agent \<Rightarrow> 'bid list \<Rightarrow>
   real \<Rightarrow> (nat \<Rightarrow> nat) \<Rightarrow> (nat \<Rightarrow> real) \<Rightarrow> real \<times> 'bid option \<Rightarrow> nat \<Rightarrow> real \<times> 'bid option"
where
  "find_bid_step profile om s all_bids floor_util rnd clock best i =
     (let bid = random_bid all_bids (rnd i)
      in if profile bid < floor_util then best
         else
           (let bid_score = score_bid profile om (clock i) s bid
            in if bid_score > fst best then (bid_score, Some bid) else best))"

text \<open>The floor \<^verbatim>\<open>min_util\<close> that \<^verbatim>\<open>find_bid\<close> computes from the progress.\<close>

definition min_util :: "real \<Rightarrow> real" where
  "min_util progress = 0.85 * (1 - 0.25 * progress)"

definition find_bid ::
  "('bid \<Rightarrow> real) \<Rightarrow> ('bid, 'm) opponent_model_class \<Rightarrow> ('bid, 'm) bobo_agent \<Rightarrow> 'bid list \<Rightarrow>
   real \<Rightarrow> (nat \<Rightarrow> nat) \<Rightarrow> (nat \<Rightarrow> real) \<Rightarrow> py_error + 'bid"
where
  "find_bid profile om s all_bids progress rnd clock =
     (if all_bids = [] then Inl ValueError
      else
        (let best = foldl (find_bid_step profile om s all_bids (min_util progress) rnd clock)
                      (0.0, None) [0..<500]
         in case snd best of
              None \<Rightarrow> Inr (random_bid all_bids (rnd 500))
            | Some best_bid \<Rightarrow> Inr best_bid))"

text \<open>
  What the runtime supplies during one call of \<^verbatim>\<open>my_turn\<close>: the utility function, the bid
  space, the progress read by \<^verbatim>\<open>accept_condition\<close> and by \<^verbatim>\<open>find_bid\<close>, the progress
  read by each call of \<^verbatim>\<open>score_bid\<close>, and the random numbers.
\<close>

record 'bid runtime =
  rt_profile :: "'bid \<Rightarrow> real"
  rt_all_bids :: "'bid list"
  rt_accept_progress :: real
  rt_find_progress :: real
  rt_score_progress :: "nat \<Rightarrow> real"
  rt_random :: "nat \<Rightarrow> nat"

text \<open>
  \<^verbatim>\<open>my_turn\<close> returns the action that it builds and sends; its actor is \<^verbatim>\<open>self.me\<close>, which
  is \<^verbatim>\<open>None\<close> until the settings have arrived. \<^verbatim>\<open>accept_condition\<close> is false when no bid
  has been received, so an accepted bid exists.
\<close>

datatype 'bid sent_action = SendAccept "party_id option" 'bid | SendOffer "party_id option" 'bid

definition my_turn ::
  "'bid runtime \<Rightarrow> ('bid, 'm) opponent_model_class \<Rightarrow> ('bid, 'm) bobo_agent \<Rightarrow>
   py_error + 'bid sent_action"
where
  "my_turn rt om s =
     (case (if accept_condition (rt_profile rt) om (rt_accept_progress rt) s (last_received_bid s)
            then last_received_bid s else None) of
        Some bid \<Rightarrow> Inr (SendAccept (me s) bid)
      | None \<Rightarrow>
          (case find_bid (rt_profile rt) om s (rt_all_bids rt) (rt_find_progress rt)
                  (rt_random rt) (rt_score_progress rt) of
             Inl e \<Rightarrow> Inl e
           | Inr bid \<Rightarrow> Inr (SendOffer (me s) bid)))"

subsection \<open>Strings and the storage file\<close>

text \<open>\<^verbatim>\<open>s.split(c)\<close>: the pieces between the occurrences of \<open>c\<close>, at least one piece.\<close>

fun split_on :: "char \<Rightarrow> string \<Rightarrow> string list" where
  "split_on c [] = [[]]"
| "split_on c (x # xs) =
     (if x = c then [] # split_on c xs
      else (case split_on c xs of [] \<Rightarrow> [[x]] | w # ws \<Rightarrow> (x # w) # ws))"

text \<open>The ASCII characters that \<^verbatim>\<open>str.strip()\<close> removes.\<close>

definition is_space :: "char \<Rightarrow> bool" where
  "is_space c = (c \<in> set [CHR 0x20, CHR 0x09, CHR 0x0A, CHR 0x0B, CHR 0x0C, CHR 0x0D,
                           CHR 0x1C, CHR 0x1D, CHR 0x1E, CHR 0x1F])"

definition strip :: "string \<Rightarrow> string" where
  "strip s = rev (dropWhile is_space (rev (dropWhile is_space s)))"

text \<open>
  A file opened with \<^verbatim>\<open>open(path, "r")\<close> is read with universal newlines: a carriage
  return followed by a line feed, and a carriage return alone, both arrive as one line feed.
\<close>

fun translate_newlines :: "string \<Rightarrow> string" where
  "translate_newlines [] = []"
| "translate_newlines [x] = (if x = CHR 0x0D then [CHR 0x0A] else [x])"
| "translate_newlines (x # y # ys) =
     (if x = CHR 0x0D
      then (if y = CHR 0x0A then CHR 0x0A # translate_newlines ys
            else CHR 0x0A # translate_newlines (y # ys))
      else x # translate_newlines (y # ys))"

text \<open>The pieces of a text that end with a line feed each, and the rest if there is one.\<close>

fun split_lines :: "string \<Rightarrow> string list" where
  "split_lines [] = []"
| "split_lines (x # xs) =
     (if x = CHR 0x0A then [x] # split_lines xs
      else (case split_lines xs of [] \<Rightarrow> [[x]] | l # ls \<Rightarrow> (x # l) # ls))"

text \<open>The lines that iterating over a text file yields, each with its line feed.\<close>

definition readlines :: "string \<Rightarrow> string list" where
  "readlines content = split_lines (translate_newlines content)"

text \<open>\<^verbatim>\<open>str(actor).rsplit("_", 1)[0]\<close>: the text before the last underscore, if there is one.\<close>

definition rsplit_head :: "string \<Rightarrow> string" where
  "rsplit_head s =
     (if CHR ''_'' \<in> set s then rev (tl (dropWhile (\<lambda>c. c \<noteq> CHR ''_'') (rev s))) else s)"

text \<open>How an f-string prints a boolean.\<close>

definition str_bool :: "bool \<Rightarrow> string" where
  "str_bool b = (if b then ''True'' else ''False'')"

text \<open>
  The loop of \<^verbatim>\<open>load_opponent_data\<close> over the lines of the file: the flags of the first
  line with three fields whose first field equals \<^verbatim>\<open>self.other\<close>. A name never equals
  \<^verbatim>\<open>None\<close>.
\<close>

fun find_record :: "string option \<Rightarrow> string list \<Rightarrow> (bool \<times> bool) option" where
  "find_record name [] = None"
| "find_record name (line # rest) =
     (let parts = split_on CHR '','' (strip line)
      in if length parts = 3 \<and> Some (parts ! 0) = name
         then Some (parts ! 1 = ''True'', parts ! 2 = ''True'')
         else find_record name rest)"

text \<open>
  The storage is the content of \<^verbatim>\<open>data.md\<close> in the storage directory, \<open>None\<close> when the
  file does not exist. The settings are taken to name a storage directory.
\<close>

definition load_opponent_data ::
  "('bid, 'm) bobo_agent \<Rightarrow> string option \<Rightarrow> ('bid, 'm) bobo_agent"
where
  "load_opponent_data s storage =
     (case storage of
        None \<Rightarrow> s
      | Some content \<Rightarrow>
          (case find_record (other s) (readlines content) of
             None \<Rightarrow> s
           | Some (greedy, nice) \<Rightarrow> s\<lparr>opponent_is_greedy := greedy, opponent_is_nice := nice\<rparr>))"

definition save_data :: "('bid, 'm) bobo_agent \<Rightarrow> string option \<Rightarrow> string option" where
  "save_data s storage =
     (case other s of
        None \<Rightarrow> storage
      | Some name \<Rightarrow>
          Some ((case storage of None \<Rightarrow> [] | Some content \<Rightarrow> content) @
                name @ '','' @ str_bool (opponent_is_greedy s) @ '','' @
                str_bool (opponent_is_nice s) @ [CHR 0x0A]))"

text \<open>
  \<^verbatim>\<open>notifyChange\<close>: the new state, the new storage and the action sent, if any. An exception
  of \<^verbatim>\<open>my_turn\<close> leaves the callback before anything is sent.
\<close>

fun notifyChange ::
  "'bid runtime \<Rightarrow> ('bid, 'm) opponent_model_class \<Rightarrow> ('bid, 'm) bobo_agent \<Rightarrow> string option \<Rightarrow>
   'bid inform \<Rightarrow> ('bid, 'm) bobo_agent \<times> string option \<times> (py_error + 'bid sent_action option)"
where
  "notifyChange rt om s storage (Settings ident) =
     (load_opponent_data (s\<lparr>me := Some ident\<rparr>) storage, storage, Inr None)"
| "notifyChange rt om s storage (ActionDone act) =
     (if Some (getActor act) \<noteq> me s
      then (opponent_action om (s\<lparr>other := Some (rsplit_head (getActor act))\<rparr>) act,
            storage, Inr None)
      else (s, storage, Inr None))"
| "notifyChange rt om s storage YourTurn =
     (case my_turn rt om s of
        Inl e \<Rightarrow> (s, storage, Inl e)
      | Inr act \<Rightarrow> (s, storage, Inr (Some act)))"
| "notifyChange rt om s storage Finished = (s, save_data s storage, Inr None)"
| "notifyChange rt om s storage UnknownInform = (s, storage, Inr None)"

text \<open>
  A session: the callbacks run one after the other on the state and the storage, each with
  what the runtime supplies during that callback.
\<close>

fun run_session ::
  "('bid, 'm) opponent_model_class \<Rightarrow> ('bid, 'm) bobo_agent \<times> string option \<Rightarrow>
   ('bid runtime \<times> 'bid inform) list \<Rightarrow> ('bid, 'm) bobo_agent \<times> string option"
where
  "run_session om (s, storage) [] = (s, storage)"
| "run_session om (s, storage) ((rt, d) # ds) =
     (case notifyChange rt om s storage d of (s', storage', sent) \<Rightarrow>
        run_session om (s', storage') ds)"

subsection \<open>The agent with continuous weights\<close>

record ('bid, 'm) bobo_agent_dynamic =
  dyn_me :: "party_id option"
  dyn_other :: "string option"
  dyn_last_received_bid :: "'bid option"
  dyn_opponent_model :: "'m option"
  dyn_opponent_utils :: "real list"
  greedy_weight :: real
  nice_weight :: real

definition BoboAgentDynamic :: "('bid, 'm) bobo_agent_dynamic" where
  "BoboAgentDynamic =
     \<lparr>dyn_me = None, dyn_other = None, dyn_last_received_bid = None, dyn_opponent_model = None,
      dyn_opponent_utils = [], greedy_weight = 0.0, nice_weight = 0.0\<rparr>"

text \<open>The two weights as \<^verbatim>\<open>opponent_action\<close> computes them from the window and the progress.\<close>

definition greedy_weight_of :: "real \<Rightarrow> real \<Rightarrow> real" where
  "greedy_weight_of avg_util progress =
     min 1.0 (max 0.0 (\<bar>avg_util - 0.5\<bar> * 2 - 0.15 * progress))"

definition nice_weight_of :: "real \<Rightarrow> real \<Rightarrow> real" where
  "nice_weight_of avg_util progress = min 1.0 (max 0.0 (1.3 - avg_util - 0.15 * progress))"

fun opponent_action_dynamic ::
  "('bid, 'm) opponent_model_class \<Rightarrow> real \<Rightarrow> ('bid, 'm) bobo_agent_dynamic \<Rightarrow> 'bid action \<Rightarrow>
   ('bid, 'm) bobo_agent_dynamic"
where
  "opponent_action_dynamic om progress s (Accept actor bid) = s"
| "opponent_action_dynamic om progress s (Offer actor bid) =
     (let model0 = (case dyn_opponent_model s of None \<Rightarrow> OpponentModel om | Some m \<Rightarrow> m);
          model1 = update om model0 bid;
          util = get_predicted_utility om model1 bid;
          utils = dyn_opponent_utils s @ [util];
          s1 = s\<lparr>dyn_opponent_model := Some model1, dyn_last_received_bid := Some bid,
                 dyn_opponent_utils := utils\<rparr>
      in if length utils \<ge> 3 then
           (let avg_util = average (recent_window utils)
            in s1\<lparr>greedy_weight := greedy_weight_of avg_util progress,
                   nice_weight := nice_weight_of avg_util progress\<rparr>)
         else s1)"

text \<open>Several actions of the opponent, each with the progress at which it arrives.\<close>

definition opponent_actions_dynamic ::
  "('bid, 'm) opponent_model_class \<Rightarrow> ('bid, 'm) bobo_agent_dynamic \<Rightarrow>
   (real \<times> 'bid action) list \<Rightarrow> ('bid, 'm) bobo_agent_dynamic"
where
  "opponent_actions_dynamic om s acts =
     foldl (\<lambda>s' (progress, act). opponent_action_dynamic om progress s' act) s acts"

definition accept_condition_dynamic ::
  "('bid \<Rightarrow> real) \<Rightarrow> ('bid, 'm) opponent_model_class \<Rightarrow> real \<Rightarrow> ('bid, 'm) bobo_agent_dynamic \<Rightarrow>
   'bid option \<Rightarrow> bool"
where
  "accept_condition_dynamic profile om progress s received =
     (case received of
        None \<Rightarrow> False
      | Some bid \<Rightarrow>
          (let offered_util = profile bid
           in if offered_util \<ge> float_0_85 then True
              else if greedy_weight s < 0.5 \<and> progress > 0.9 \<and> offered_util > float_0_7
              then True
              else if (case dyn_opponent_model s of
                         None \<Rightarrow> False
                       | Some m \<Rightarrow>
                           (let opponent_util = get_predicted_utility om m bid
                            in if progress > 0.95 \<and> offered_util > 0.75 \<and> opponent_util > 0.6
                               then True
                               else progress > 0.99 \<and> offered_util > float_0_7 \<and>
                                    opponent_util < 0.5))
              then True
              else offered_util >
                     (if progress > 0.98 then 0.75
                      else if progress > 0.95 then float_0_8 else float_0_85)))"

text \<open>The trade-off weight \<^verbatim>\<open>alpha\<close> of \<^verbatim>\<open>score_bid\<close>.\<close>

definition alpha_dynamic :: "real \<Rightarrow> real \<Rightarrow> real" where
  "alpha_dynamic progress nice = max 0.6 (0.95 - 0.3 * progress * (1 - nice))"

definition score_bid_dynamic ::
  "('bid \<Rightarrow> real) \<Rightarrow> ('bid, 'm) opponent_model_class \<Rightarrow> real \<Rightarrow> ('bid, 'm) bobo_agent_dynamic \<Rightarrow>
   'bid \<Rightarrow> real"
where
  "score_bid_dynamic profile om progress s bid =
     (let our_utility = profile bid;
          opponent_utility =
            (case dyn_opponent_model s of None \<Rightarrow> 0 | Some m \<Rightarrow> get_predicted_utility om m bid);
          alpha = alpha_dynamic progress (nice_weight s)
      in alpha * our_utility + (1.0 - alpha) * opponent_utility * (1 - greedy_weight s))"

definition find_bid_step_dynamic ::
  "('bid \<Rightarrow> real) \<Rightarrow> ('bid, 'm) opponent_model_class \<Rightarrow> ('bid, 'm) bobo_agent_dynamic \<Rightarrow>
   'bid list \<Rightarrow> real \<Rightarrow> (nat \<Rightarrow> nat) \<Rightarrow> (nat \<Rightarrow> real) \<Rightarrow> real \<times> 'bid option \<Rightarrow> nat \<Rightarrow>
   real \<times> 'bid option"
where
  "find_bid_step_dynamic profile om s all_bids floor_util rnd clock best i =
     (let bid = random_bid all_bids (rnd i)
      in if profile bid < floor_util then best
         else
           (let bid_score = score_bid_dynamic profile om (clock i) s bid
            in if bid_score > fst best then (bid_score, Some bid) else best))"

definition min_util_dynamic :: "real \<Rightarrow> real" where
  "min_util_dynamic progress = 0.85 * (1 - 0.15 * progress)"

definition find_bid_dynamic ::
  "('bid \<Rightarrow> real) \<Rightarrow> ('bid, 'm) opponent_model_class \<Rightarrow> ('bid, 'm) bobo_agent_dynamic \<Rightarrow>
   'bid list \<Rightarrow> real \<Rightarrow> (nat \<Rightarrow> nat) \<Rightarrow> (nat \<Rightarrow> real) \<Rightarrow> py_error + 'bid"
where
  "find_bid_dynamic profile om s all_bids progress rnd clock =
     (if all_bids = [] then Inl ValueError
      else
        (let best = foldl
                      (find_bid_step_dynamic profile om s all_bids (min_util_dynamic progress)
                         rnd clock)
                      (0.0, None) [0..<500]
         in case snd best of
              None \<Rightarrow> Inr (random_bid all_bids (rnd 500))
            | Some best_bid \<Rightarrow> Inr best_bid))"

text \<open>\<^verbatim>\<open>save_data\<close> of this agent overwrites the file with a fixed text.\<close>

definition save_data_dynamic :: "('bid, 'm) bobo_agent_dynamic \<Rightarrow> string option \<Rightarrow> string option" where
  "save_data_dynamic s storage = Some ''Learning data (see README.md)''"

subsection \<open>A concrete negotiation\<close>

text \<open>
  The scenarios below run the agents on a small concrete instance. A bid is a pair of
  percentages \<open>(a, b)\<close>: it is worth \<open>a / 100\<close> to the agent, and the opponent model predicts
  \<open>b / 100\<close> for the opponent, whatever it has observed.
\<close>

type_synonym example_bid = "nat \<times> nat"

definition example_profile :: "example_bid \<Rightarrow> real" where
  "example_profile bid = real (fst bid) / 100"

definition example_predicted :: "unit \<Rightarrow> example_bid \<Rightarrow> real" where
  "example_predicted m bid = real (snd bid) / 100"

definition example_update :: "unit \<Rightarrow> example_bid \<Rightarrow> unit" where
  "example_update m bid = m"

definition example_model :: "(example_bid, unit) opponent_model_class" where
  "example_model =
     \<lparr>OpponentModel = (), update = example_update, get_predicted_utility = example_predicted\<rparr>"

text \<open>A clock that stands still, and a random source that is constant during the loop.\<close>

definition still_clock :: "real \<Rightarrow> nat \<Rightarrow> real" where
  "still_clock progress i = progress"

definition loop_then :: "nat \<Rightarrow> nat \<Rightarrow> nat \<Rightarrow> nat" where
  "loop_then r r_fallback i = (if i < 500 then r else r_fallback)"

definition example_runtime :: "real \<Rightarrow> example_bid runtime" where
  "example_runtime progress =
     \<lparr>rt_profile = example_profile, rt_all_bids = [(100, 0), (10, 50)],
      rt_accept_progress = progress, rt_find_progress = progress,
      rt_score_progress = still_clock progress, rt_random = loop_then 2 3\<rparr>"

text \<open>Five offers by the opponent \<^verbatim>\<open>X_2\<close>, each with predicted utility 0.95.\<close>

definition five_greedy_offers :: "example_bid action list" where
  "five_greedy_offers =
     [Offer ''X_2'' (68, 95), Offer ''X_2'' (68, 95), Offer ''X_2'' (68, 95),
      Offer ''X_2'' (68, 95), Offer ''X_2'' (68, 95)]"

definition after_five_greedy_offers :: "(example_bid, unit) bobo_agent" where
  "after_five_greedy_offers = foldl (opponent_action example_model) BoboAgent five_greedy_offers"

text \<open>The same five offers at the agent with continuous weights, each read at progress 0.3.\<close>

definition after_five_greedy_offers_dynamic :: "(example_bid, unit) bobo_agent_dynamic" where
  "after_five_greedy_offers_dynamic =
     opponent_actions_dynamic example_model BoboAgentDynamic (map (Pair 0.3) five_greedy_offers)"

text \<open>Five further offers with predicted utility 0.2: the opponent has started to concede.\<close>

definition five_conceding_offers :: "example_bid action list" where
  "five_conceding_offers =
     [Offer ''X_2'' (68, 20), Offer ''X_2'' (68, 20), Offer ''X_2'' (68, 20),
      Offer ''X_2'' (68, 20), Offer ''X_2'' (68, 20)]"

definition after_ten_offers :: "(example_bid, unit) bobo_agent" where
  "after_ten_offers =
     foldl (opponent_action example_model) after_five_greedy_offers five_conceding_offers"

definition after_five_conceding_offers :: "(example_bid, unit) bobo_agent" where
  "after_five_conceding_offers =
     foldl (opponent_action example_model) BoboAgent five_conceding_offers"

text \<open>One offer with predicted utility 0.5: an opponent model exists, nothing is classified.\<close>

definition after_one_offer :: "(example_bid, unit) bobo_agent" where
  "after_one_offer = opponent_action example_model BoboAgent (Offer ''X_2'' (10, 50))"

definition after_one_offer_dynamic :: "(example_bid, unit) bobo_agent_dynamic" where
  "after_one_offer_dynamic =
     opponent_action_dynamic example_model 0.3 BoboAgentDynamic (Offer ''X_2'' (10, 50))"

text \<open>
  A first session against \<^verbatim>\<open>X_2\<close> with an empty storage directory: the settings, the five
  offers, the end of the negotiation. A second session against the same opponent then starts
  on the storage that the first one has left.
\<close>

definition offers_and_finish :: "(example_bid runtime \<times> example_bid inform) list" where
  "offers_and_finish =
     map (\<lambda>act. (example_runtime 0.3, ActionDone act)) five_greedy_offers @
     [(example_runtime 0.4, Finished)]"

definition first_session :: "(example_bid runtime \<times> example_bid inform) list" where
  "first_session = (example_runtime 0, Settings ''bobo_1'') # offers_and_finish"

definition after_first_session :: "(example_bid, unit) bobo_agent \<times> string option" where
  "after_first_session = run_session example_model (BoboAgent, None) first_session"

definition second_session_start :: "(example_bid runtime \<times> example_bid inform) list" where
  "second_session_start = [(example_runtime 0, Settings ''bobo_1'')]"

definition second_session_first_offer :: "(example_bid runtime \<times> example_bid inform) list" where
  "second_session_first_offer =
     second_session_start @ [(example_runtime 0.1, ActionDone (Offer ''X_2'' (68, 95)))]"

definition second_session ::
  "(example_bid runtime \<times> example_bid inform) list \<Rightarrow> (example_bid, unit) bobo_agent"
where
  "second_session events =
     fst (run_session example_model (BoboAgent, snd after_first_session) events)"

text \<open>Three offers with predicted utility 0, read at progress 0, saturate the greedy weight.\<close>

definition after_three_zero_offers_dynamic :: "(example_bid, unit) bobo_agent_dynamic" where
  "after_three_zero_offers_dynamic =
     opponent_actions_dynamic example_model BoboAgentDynamic
       [(0, Offer ''X_2'' (68, 0)), (0, Offer ''X_2'' (68, 0)), (0, Offer ''X_2'' (68, 0))]"

section \<open>Properties\<close>

subsection \<open>The concrete negotiation, evaluated\<close>

lemma after_five_greedy_offers_eq:
  "after_five_greedy_offers =
     \<lparr>me = None, other = None, opponent_utils = [0.95, 0.95, 0.95, 0.95, 0.95],
      opponent_is_greedy = True, opponent_is_nice = False, last_received_bid = Some (68, 95),
      opponent_model = Some ()\<rparr>"
  by (simp add: after_five_greedy_offers_def five_greedy_offers_def BoboAgent_def Let_def
      example_model_def example_predicted_def example_update_def average_def recent_window_def)

lemma after_five_greedy_offers_dynamic_eq:
  "after_five_greedy_offers_dynamic =
     \<lparr>dyn_me = None, dyn_other = None, dyn_last_received_bid = Some (68, 95),
      dyn_opponent_model = Some (), dyn_opponent_utils = [0.95, 0.95, 0.95, 0.95, 0.95],
      greedy_weight = 0.855, nice_weight = 0.305\<rparr>"
  by (simp add: after_five_greedy_offers_dynamic_def opponent_actions_dynamic_def
      five_greedy_offers_def BoboAgentDynamic_def Let_def example_model_def
      example_predicted_def example_update_def average_def recent_window_def
      greedy_weight_of_def nice_weight_of_def)

lemma after_ten_offers_eq:
  "after_ten_offers =
     \<lparr>me = None, other = None,
      opponent_utils = [0.95, 0.95, 0.95, 0.95, 0.95, 0.2, 0.2, 0.2, 0.2, 0.2],
      opponent_is_greedy = True, opponent_is_nice = True, last_received_bid = Some (68, 20),
      opponent_model = Some ()\<rparr>"
  by (simp add: after_ten_offers_def after_five_greedy_offers_eq five_conceding_offers_def Let_def
      example_model_def example_predicted_def example_update_def average_def recent_window_def)

lemma after_five_conceding_offers_eq:
  "after_five_conceding_offers =
     \<lparr>me = None, other = None, opponent_utils = [0.2, 0.2, 0.2, 0.2, 0.2],
      opponent_is_greedy = False, opponent_is_nice = False, last_received_bid = Some (68, 20),
      opponent_model = Some ()\<rparr>"
  by (simp add: after_five_conceding_offers_def BoboAgent_def five_conceding_offers_def Let_def
      example_model_def example_predicted_def example_update_def average_def recent_window_def)

lemma after_one_offer_eq:
  "after_one_offer =
     \<lparr>me = None, other = None, opponent_utils = [0.5], opponent_is_greedy = False,
      opponent_is_nice = False, last_received_bid = Some (10, 50), opponent_model = Some ()\<rparr>"
  by (simp add: after_one_offer_def BoboAgent_def Let_def example_model_def
      example_predicted_def example_update_def)

lemma after_one_offer_dynamic_eq:
  "after_one_offer_dynamic =
     \<lparr>dyn_me = None, dyn_other = None, dyn_last_received_bid = Some (10, 50),
      dyn_opponent_model = Some (), dyn_opponent_utils = [0.5], greedy_weight = 0,
      nice_weight = 0\<rparr>"
  by (simp add: after_one_offer_dynamic_def BoboAgentDynamic_def Let_def example_model_def
      example_predicted_def example_update_def)

lemma after_three_zero_offers_dynamic_eq:
  "after_three_zero_offers_dynamic =
     \<lparr>dyn_me = None, dyn_other = None, dyn_last_received_bid = Some (68, 0),
      dyn_opponent_model = Some (), dyn_opponent_utils = [0, 0, 0],
      greedy_weight = 1, nice_weight = 1\<rparr>"
  by (simp add: after_three_zero_offers_dynamic_def opponent_actions_dynamic_def
      BoboAgentDynamic_def Let_def example_model_def example_predicted_def example_update_def
      average_def recent_window_def greedy_weight_of_def nice_weight_of_def)

lemma rsplit_head_X: "rsplit_head ''X_2'' = ''X''"
  by (simp add: rsplit_head_def)

lemma after_first_session_eq:
  "after_first_session =
     (\<lparr>me = Some ''bobo_1'', other = Some ''X'',
       opponent_utils = [0.95, 0.95, 0.95, 0.95, 0.95], opponent_is_greedy = True,
       opponent_is_nice = False, last_received_bid = Some (68, 95), opponent_model = Some ()\<rparr>,
      Some (''X,True,False'' @ [CHR 0x0A]))"
  by (simp add: after_first_session_def first_session_def offers_and_finish_def
      five_greedy_offers_def BoboAgent_def
      load_opponent_data_def save_data_def str_bool_def rsplit_head_X Let_def
      example_model_def example_predicted_def example_update_def average_def recent_window_def)

lemma example_draws:
  "i < 500 \<Longrightarrow> random_bid [(100, 0), (10, 50)] (loop_then 2 3 i) = ((100, 0) :: example_bid)"
  "random_bid [(100, 0), (10, 50)] (loop_then 2 3 500) = ((10, 50) :: example_bid)"
proof -
  have len: "length [(100, 0), (10, 50) :: example_bid] = 2"
    by simp
  show "i < 500 \<Longrightarrow>
        random_bid [(100, 0), (10, 50)] (loop_then 2 3 i) = ((100, 0) :: example_bid)"
    unfolding random_bid_def len by (simp add: loop_then_def)
  show "random_bid [(100, 0), (10, 50)] (loop_then 2 3 500) = ((10, 50) :: example_bid)"
    unfolding random_bid_def len by (simp add: loop_then_def)
qed

subsection \<open>The behaviour classifier\<close>

text \<open>What one offer does to the history, the model and the flags.\<close>

lemma opponent_model_offer:
  "opponent_model (opponent_action om s (Offer actor bid)) \<noteq> None"
  by (simp add: Let_def)

lemma opponent_is_greedy_offer:
  "opponent_is_greedy (opponent_action om s (Offer actor bid)) =
     (opponent_is_greedy s \<or>
      (3 \<le> length (opponent_utils (opponent_action om s (Offer actor bid))) \<and>
       0.87 < average (recent_window (opponent_utils (opponent_action om s (Offer actor bid))))))"
  by (simp add: Let_def)

lemma opponent_is_nice_offer:
  "opponent_is_nice (opponent_action om s (Offer actor bid)) =
     (opponent_is_nice s \<or>
      (3 \<le> length (opponent_utils (opponent_action om s (Offer actor bid))) \<and>
       0.6 < average (recent_window (opponent_utils (opponent_action om s (Offer actor bid)))) \<and>
       average (recent_window (opponent_utils (opponent_action om s (Offer actor bid)))) < 0.9))"
  by (simp add: Let_def)

lemma opponent_utils_length_mono:
  "length (opponent_utils s) \<le> length (opponent_utils (opponent_action om s act))"
  by (cases act) (simp_all add: Let_def)

lemma dyn_opponent_utils_length_mono:
  "length (dyn_opponent_utils s) \<le>
   length (dyn_opponent_utils (opponent_action_dynamic om progress s act))"
  by (cases act) (simp_all add: Let_def)

lemma greedy_weight_offer:
  "greedy_weight (opponent_action_dynamic om progress s (Offer actor bid)) =
     (if 3 \<le> length (dyn_opponent_utils (opponent_action_dynamic om progress s (Offer actor bid)))
      then greedy_weight_of
             (average (recent_window
                (dyn_opponent_utils (opponent_action_dynamic om progress s (Offer actor bid)))))
             progress
      else greedy_weight s)"
  by (simp add: Let_def)

lemma nice_weight_offer:
  "nice_weight (opponent_action_dynamic om progress s (Offer actor bid)) =
     (if 3 \<le> length (dyn_opponent_utils (opponent_action_dynamic om progress s (Offer actor bid)))
      then nice_weight_of
             (average (recent_window
                (dyn_opponent_utils (opponent_action_dynamic om progress s (Offer actor bid)))))
             progress
      else nice_weight s)"
  by (simp add: Let_def)

text \<open>
  A run of opponent actions from a state with an empty history: when the window of the
  history that it leaves has an average above 0.87, the greedy flag is set and an opponent
  model exists.
\<close>

lemma run_classified:
  assumes "opponent_utils s0 = []"
    and "3 \<le> length (opponent_utils (foldl (opponent_action om) s0 acts))"
    and "0.87 < average (recent_window (opponent_utils (foldl (opponent_action om) s0 acts)))"
  shows "opponent_is_greedy (foldl (opponent_action om) s0 acts) \<and>
         opponent_model (foldl (opponent_action om) s0 acts) \<noteq> None"
  using assms
proof (induction acts rule: rev_induct)
  case Nil
  then show ?case by simp
next
  case (snoc act acts)
  show ?case
  proof (cases act)
    case (Offer actor bid)
    have "opponent_is_greedy
            (opponent_action om (foldl (opponent_action om) s0 acts) (Offer actor bid))"
      using snoc.prems(2,3) unfolding Offer
      by (subst opponent_is_greedy_offer) simp
    then show ?thesis
      using opponent_model_offer [of om "foldl (opponent_action om) s0 acts" actor bid]
      by (simp add: Offer del: opponent_action.simps)
  next
    case (Accept actor bid)
    then show ?thesis
      using snoc by simp
  qed
qed

text \<open>
  C8. While fewer than three offers of the opponent are on record, the signals are the ones
  the run started with, whatever the offers contain: the two flags of the agent with boolean
  flags, the two weights of the agent with continuous weights. A fresh agent starts with both
  flags false (\<open>BoboAgent\<close>) and both weights 0 (\<open>BoboAgentDynamic\<close>).
\<close>

theorem signals_neutral_before_three_offers:
  assumes "length (opponent_utils (foldl (opponent_action om) s acts)) < 3"
    and "length (dyn_opponent_utils (opponent_actions_dynamic om d pas)) < 3"
  shows "opponent_is_greedy (foldl (opponent_action om) s acts) = opponent_is_greedy s \<and>
         opponent_is_nice (foldl (opponent_action om) s acts) = opponent_is_nice s \<and>
         greedy_weight (opponent_actions_dynamic om d pas) = greedy_weight d \<and>
         nice_weight (opponent_actions_dynamic om d pas) = nice_weight d"
proof -
  have flags: "opponent_is_greedy (foldl (opponent_action om) s acts) = opponent_is_greedy s \<and>
               opponent_is_nice (foldl (opponent_action om) s acts) = opponent_is_nice s"
    using assms(1)
  proof (induction acts rule: rev_induct)
    case Nil
    then show ?case by simp
  next
    case (snoc act acts)
    let ?t = "foldl (opponent_action om) s acts"
    have "length (opponent_utils ?t) \<le> length (opponent_utils (opponent_action om ?t act))"
      by (rule opponent_utils_length_mono)
    then have "length (opponent_utils ?t) < 3"
      using snoc.prems by simp
    then have ih: "opponent_is_greedy ?t = opponent_is_greedy s \<and>
                   opponent_is_nice ?t = opponent_is_nice s"
      by (rule snoc.IH)
    show ?case
    proof (cases act)
      case (Offer actor bid)
      then show ?thesis
        using snoc.prems ih
        by (simp add: opponent_is_greedy_offer opponent_is_nice_offer
            del: opponent_action.simps)
    next
      case (Accept actor bid)
      then show ?thesis using ih by simp
    qed
  qed
  have weights: "greedy_weight (opponent_actions_dynamic om d pas) = greedy_weight d \<and>
                 nice_weight (opponent_actions_dynamic om d pas) = nice_weight d"
    using assms(2)
  proof (induction pas rule: rev_induct)
    case Nil
    then show ?case by (simp add: opponent_actions_dynamic_def)
  next
    case (snoc pa pas)
    obtain progress act where pa: "pa = (progress, act)"
      by (cases pa)
    let ?t = "opponent_actions_dynamic om d pas"
    have step: "opponent_actions_dynamic om d (pas @ [pa]) =
                opponent_action_dynamic om progress ?t act"
      by (simp add: opponent_actions_dynamic_def pa)
    have "length (dyn_opponent_utils ?t) \<le>
          length (dyn_opponent_utils (opponent_action_dynamic om progress ?t act))"
      by (rule dyn_opponent_utils_length_mono)
    then have "length (dyn_opponent_utils ?t) < 3"
      using snoc.prems step by simp
    then have ih: "greedy_weight ?t = greedy_weight d \<and> nice_weight ?t = nice_weight d"
      by (rule snoc.IH)
    show ?case
    proof (cases act)
      case (Offer actor bid)
      then show ?thesis
        using snoc.prems ih unfolding step
        by (simp add: greedy_weight_offer nice_weight_offer
            del: opponent_action_dynamic.simps)
    next
      case (Accept actor bid)
      then show ?thesis using ih unfolding step by simp
    qed
  qed
  from flags weights show ?thesis
    by simp
qed

text \<open>Two offers with predicted utility 0.95 leave a fresh agent of either kind unclassified.\<close>

theorem signals_neutral_before_three_offers_witness:
  "\<not> opponent_is_greedy
       (foldl (opponent_action example_model) BoboAgent
          [Offer ''X_2'' (68, 95), Offer ''X_2'' (68, 95)]) \<and>
   \<not> opponent_is_nice
       (foldl (opponent_action example_model) BoboAgent
          [Offer ''X_2'' (68, 95), Offer ''X_2'' (68, 95)]) \<and>
   greedy_weight
     (opponent_actions_dynamic example_model BoboAgentDynamic
        [(0.3, Offer ''X_2'' (68, 95)), (0.4, Offer ''X_2'' (68, 95))]) = 0 \<and>
   nice_weight
     (opponent_actions_dynamic example_model BoboAgentDynamic
        [(0.3, Offer ''X_2'' (68, 95)), (0.4, Offer ''X_2'' (68, 95))]) = 0"
proof -
  have a: "length (opponent_utils
             (foldl (opponent_action example_model) BoboAgent
                [Offer ''X_2'' (68, 95), Offer ''X_2'' (68, 95)])) < 3"
    by (simp add: Let_def BoboAgent_def)
  have b: "length (dyn_opponent_utils
             (opponent_actions_dynamic example_model BoboAgentDynamic
                [(0.3, Offer ''X_2'' (68, 95)), (0.4, Offer ''X_2'' (68, 95))])) < 3"
    by (simp add: opponent_actions_dynamic_def Let_def BoboAgentDynamic_def)
  have "opponent_is_greedy (BoboAgent :: (example_bid, unit) bobo_agent) = False"
    "opponent_is_nice (BoboAgent :: (example_bid, unit) bobo_agent) = False"
    "greedy_weight (BoboAgentDynamic :: (example_bid, unit) bobo_agent_dynamic) = 0"
    "nice_weight (BoboAgentDynamic :: (example_bid, unit) bobo_agent_dynamic) = 0"
    by (simp_all add: BoboAgent_def BoboAgentDynamic_def)
  then show ?thesis
    using signals_neutral_before_three_offers [OF a b] by simp
qed

text \<open>
  C5, as the code has it. An offer of the opponent sets each boolean flag when at least three
  offers are on record and the average of the last five predicted utilities lies in the band
  of the flag, and never clears it: the flag is true afterwards exactly when it was true
  before or the windowed average lies in the band. In the agent with continuous weights both
  weights are recomputed from that windowed average and the progress alone (once three
  offers are on record; before that they keep their values).
\<close>

theorem signals_after_offer:
  assumes "s' = opponent_action om s (Offer actor bid)"
    and "d' = opponent_action_dynamic om progress d (Offer actor bid)"
  shows "opponent_is_greedy s' =
           (opponent_is_greedy s \<or>
            (3 \<le> length (opponent_utils s') \<and>
             0.87 < average (recent_window (opponent_utils s')))) \<and>
         opponent_is_nice s' =
           (opponent_is_nice s \<or>
            (3 \<le> length (opponent_utils s') \<and>
             0.6 < average (recent_window (opponent_utils s')) \<and>
             average (recent_window (opponent_utils s')) < 0.9)) \<and>
         greedy_weight d' =
           (if 3 \<le> length (dyn_opponent_utils d')
            then greedy_weight_of (average (recent_window (dyn_opponent_utils d'))) progress
            else greedy_weight d) \<and>
         nice_weight d' =
           (if 3 \<le> length (dyn_opponent_utils d')
            then nice_weight_of (average (recent_window (dyn_opponent_utils d'))) progress
            else nice_weight d)"
  unfolding assms
  using opponent_is_greedy_offer [of om s actor bid] opponent_is_nice_offer [of om s actor bid]
    greedy_weight_offer [of om progress d actor bid] nice_weight_offer [of om progress d actor bid]
  by blast

text \<open>
  A sixth offer with predicted utility 0.2 after the five greedy ones, read at progress 0.5:
  the window averages 0.8, the greedy flag stays and the nice flag is set; the weights
  become \<open>0.6 - 0.075\<close> and \<open>0.5 - 0.075\<close>.
\<close>

theorem signals_after_offer_witness:
  "opponent_is_greedy
     (opponent_action example_model after_five_greedy_offers (Offer ''X_2'' (68, 20))) \<and>
   opponent_is_nice
     (opponent_action example_model after_five_greedy_offers (Offer ''X_2'' (68, 20))) \<and>
   greedy_weight
     (opponent_action_dynamic example_model 0.5 after_five_greedy_offers_dynamic
        (Offer ''X_2'' (68, 20))) = 0.525 \<and>
   nice_weight
     (opponent_action_dynamic example_model 0.5 after_five_greedy_offers_dynamic
        (Offer ''X_2'' (68, 20))) = 0.425"
proof -
  have utils: "opponent_utils
           (opponent_action example_model after_five_greedy_offers (Offer ''X_2'' (68, 20))) =
         [0.95, 0.95, 0.95, 0.95, 0.95, 0.2]"
    "dyn_opponent_utils
           (opponent_action_dynamic example_model 0.5 after_five_greedy_offers_dynamic
              (Offer ''X_2'' (68, 20))) =
         [0.95, 0.95, 0.95, 0.95, 0.95, 0.2]"
    by (simp_all add: after_five_greedy_offers_eq after_five_greedy_offers_dynamic_eq Let_def
        example_model_def example_predicted_def example_update_def)
  have avg: "average (recent_window [0.95, 0.95, 0.95, 0.95, 0.95, 0.2]) = 0.8"
    by (simp add: average_def recent_window_def)
  have before: "opponent_is_greedy after_five_greedy_offers"
    by (simp add: after_five_greedy_offers_eq)
  note step =
    signals_after_offer
      [where om = example_model and s = after_five_greedy_offers and actor = "''X_2''"
         and bid = "(68, 20)" and progress = "0.5" and d = after_five_greedy_offers_dynamic,
       OF refl refl, unfolded utils avg]
  show ?thesis
    using step before
    by (simp add: greedy_weight_of_def nice_weight_of_def
        del: opponent_action.simps opponent_action_dynamic.simps)
qed

text \<open>
  Against C5 as stated: after five offers with predicted utility 0.95 and five with 0.2 the
  window holds five times 0.2, its average 0.2 is far below 0.87, and the greedy flag is
  still set. An agent that has seen the five conceding offers only has the same window and
  the flag unset, so the flag does not depend on the window alone.
\<close>

theorem greedy_flag_latches_counterexample:
  "recent_window (opponent_utils after_ten_offers) = [0.2, 0.2, 0.2, 0.2, 0.2] \<and>
   average (recent_window (opponent_utils after_ten_offers)) = 0.2 \<and>
   opponent_is_greedy after_ten_offers \<and>
   recent_window (opponent_utils after_five_conceding_offers) = [0.2, 0.2, 0.2, 0.2, 0.2] \<and>
   \<not> opponent_is_greedy after_five_conceding_offers"
  by (simp add: after_ten_offers_eq after_five_conceding_offers_eq recent_window_def average_def)

subsection \<open>The acceptance policy\<close>

text \<open>
  Each constant is a multiple of \<open>2 ^ 53\<close>-ths by its definition, and it lies within half
  of such a step of its literal, so it is the double that the literal denotes. The doubles of
  0.6, 0.7 and 0.85 lie below the decimal fraction, those of 0.65, 0.8 and 0.9 above it.
\<close>

lemma float_literals_nearest:
  "\<bar>float_0_6 - 0.6\<bar> < 1 / 2 ^ 54" "\<bar>float_0_65 - 0.65\<bar> < 1 / 2 ^ 54"
  "\<bar>float_0_7 - 0.7\<bar> < 1 / 2 ^ 54" "\<bar>float_0_8 - 0.8\<bar> < 1 / 2 ^ 54"
  "\<bar>float_0_85 - 0.85\<bar> < 1 / 2 ^ 54" "\<bar>float_0_9 - 0.9\<bar> < 1 / 2 ^ 54"
  by (simp_all add: float_0_6_def float_0_65_def float_0_7_def float_0_8_def float_0_85_def
      float_0_9_def)

lemma float_literals_order:
  "float_0_6 < 0.6" "0.65 < float_0_65" "float_0_7 < 0.7" "0.8 < float_0_8"
  "float_0_85 < 0.85" "0.9 < float_0_9" "0.6 < float_0_7" "float_0_85 < 0.9"
  by (simp_all add: float_0_6_def float_0_65_def float_0_7_def float_0_8_def float_0_85_def
      float_0_9_def)

text \<open>
  What the agents do accept: the agent with boolean flags accepts every bid whose own utility
  is at least the double of 0.9, the agent with continuous weights every bid whose own
  utility is at least 0.9, since its threshold is the double of 0.85.
\<close>

lemma accept_condition_from_float_0_9:
  "float_0_9 \<le> profile bid \<Longrightarrow> accept_condition profile om progress s (Some bid)"
  by (simp add: accept_condition_def)

lemma accept_condition_dynamic_from_0_9:
  "0.9 \<le> profile bid \<Longrightarrow> accept_condition_dynamic profile om progress d (Some bid)"
  using float_literals_order(8) by (simp add: accept_condition_dynamic_def)

text \<open>
  C7 fails on the code. A bid that is worth exactly 0.9 to the agent does not pass the test
  \<^verbatim>\<open>offered_util >= 0.9\<close> of the agent with boolean flags, because the literal denotes a
  double slightly above 0.9; a fresh agent at progress 0.3 refuses the bid. The agent with
  continuous weights accepts it.
\<close>

theorem accept_condition_refuses_exact_0_9:
  "example_profile (90, 30) = 0.9 \<and>
   \<not> accept_condition example_profile example_model 0.3
       (BoboAgent :: (example_bid, unit) bobo_agent) (Some (90, 30)) \<and>
   accept_condition_dynamic example_profile example_model 0.3
     (BoboAgentDynamic :: (example_bid, unit) bobo_agent_dynamic) (Some (90, 30))"
proof -
  have u: "example_profile (90, 30) = 0.9"
    by (simp add: example_profile_def)
  have "\<not> accept_condition example_profile example_model 0.3
            (BoboAgent :: (example_bid, unit) bobo_agent) (Some (90, 30))"
    by (simp add: accept_condition_def accept_near_deadline_def BoboAgent_def u float_0_9_def)
  moreover have "accept_condition_dynamic example_profile example_model 0.3
                   (BoboAgentDynamic :: (example_bid, unit) bobo_agent_dynamic) (Some (90, 30))"
    using u by (intro accept_condition_dynamic_from_0_9) simp
  ultimately show ?thesis
    using u by simp
qed

text \<open>
  With an own utility of at most the double of 0.6 the block that consults the opponent
  model never returns \<^verbatim>\<open>True\<close>, as long as the predicted utility is a number between 0 and
  1: the product of the two utilities is then at most 0.6.
\<close>

lemma accept_with_model_low:
  assumes "offered_util \<le> float_0_6" and "0 \<le> opponent_util" and "opponent_util \<le> 1"
  shows "accept_with_model progress offered_util opponent_util greedy nice \<noteq> Some True"
proof -
  have low: "offered_util < 0.6"
    using assms(1) float_literals_order(1) by simp
  have "offered_util * opponent_util \<le> 0.6"
  proof (cases "0 \<le> offered_util")
    case True
    then have "offered_util * opponent_util \<le> offered_util * 1"
      using assms by (intro mult_left_mono) auto
    then show ?thesis using low by simp
  next
    case False
    then have "offered_util * opponent_util \<le> 0"
      using assms by (simp add: mult_nonpos_nonneg)
    then show ?thesis by simp
  qed
  moreover have "\<not> offered_util > float_0_7" "\<not> offered_util > float_0_65"
    using low float_literals_order(2,7) by simp_all
  ultimately show ?thesis
    using assms(1) low by (simp add: accept_with_model_def)
qed

text \<open>
  What the agents never accept: the agent with boolean flags no bid whose own utility is at
  most the double of 0.6 (the predicted utility being between 0 and 1, as \<^verbatim>\<open>OpponentModel\<close>
  promises), the agent with continuous weights no bid whose own utility is at most 0.6.
\<close>

lemma never_accept_up_to_float_0_6:
  assumes "profile bid \<le> float_0_6"
    and "\<And>m. opponent_model s = Some m \<Longrightarrow>
           0 \<le> get_predicted_utility om m bid \<and> get_predicted_utility om m bid \<le> 1"
  shows "\<not> accept_condition profile om progress s (Some bid)"
proof -
  have low: "profile bid < 0.6"
    using assms(1) float_literals_order(1) by simp
  then have thresholds: "\<not> float_0_9 \<le> profile bid" "\<not> profile bid > float_0_65"
    "\<not> profile bid > float_0_7" "\<not> profile bid > float_0_8" "\<not> profile bid > float_0_85"
    by (simp_all add: float_0_65_def float_0_7_def float_0_8_def float_0_85_def float_0_9_def)
  show ?thesis
  proof (cases "opponent_model s")
    case None
    then show ?thesis
      using low thresholds by (simp add: accept_condition_def accept_near_deadline_def)
  next
    case (Some m)
    then have "accept_with_model progress (profile bid) (get_predicted_utility om m bid)
                 (opponent_is_greedy s) (opponent_is_nice s) \<noteq> Some True"
      using assms by (intro accept_with_model_low) auto
    then show ?thesis
      using Some low thresholds
      by (auto simp add: accept_condition_def accept_near_deadline_def Let_def
          split: option.splits)
  qed
qed

lemma never_accept_dynamic_up_to_0_6:
  assumes "profile bid \<le> 0.6"
  shows "\<not> accept_condition_dynamic profile om progress d (Some bid)"
proof -
  have "\<not> float_0_85 \<le> profile bid" "\<not> profile bid > float_0_7" "\<not> profile bid > float_0_8"
    "\<not> profile bid > float_0_85"
    using assms by (simp_all add: float_0_7_def float_0_8_def float_0_85_def)
  then show ?thesis
    using assms by (auto simp add: accept_condition_dynamic_def Let_def split: option.splits)
qed

text \<open>
  C9 fails on the code. A bid that is worth exactly 0.6 to the agent passes the tests
  \<^verbatim>\<open>offered_util > 0.6\<close> of the agent with boolean flags, because the literal denotes a
  double slightly below 0.6. Against an opponent classified greedy the bid is accepted at
  progress 1 (last resort); against an unclassified opponent for whom 0.4 is predicted it is
  accepted at progress 0.7. The agent with continuous weights refuses it.
\<close>

theorem accept_condition_accepts_exact_0_6:
  "example_profile (60, 40) = 0.6 \<and>
   opponent_is_greedy after_five_greedy_offers \<and>
   accept_condition example_profile example_model 1 after_five_greedy_offers (Some (60, 40)) \<and>
   \<not> opponent_is_greedy after_one_offer \<and>
   accept_condition example_profile example_model 0.7 after_one_offer (Some (60, 40)) \<and>
   \<not> accept_condition_dynamic example_profile example_model 1 after_five_greedy_offers_dynamic
       (Some (60, 40))"
proof -
  have u: "example_profile (60, 40) = 0.6"
    by (simp add: example_profile_def)
  have v: "get_predicted_utility example_model () (60, 40) = 0.4"
    by (simp add: example_model_def example_predicted_def)
  have "accept_condition example_profile example_model 1 after_five_greedy_offers
          (Some (60, 40))"
    by (simp add: accept_condition_def accept_with_model_def after_five_greedy_offers_eq u v
        float_0_9_def float_0_65_def float_0_6_def)
  moreover have "accept_condition example_profile example_model 0.7 after_one_offer
                   (Some (60, 40))"
    by (simp add: accept_condition_def accept_with_model_def after_one_offer_eq u v
        float_0_9_def float_0_6_def)
  moreover have "\<not> accept_condition_dynamic example_profile example_model 1
                     after_five_greedy_offers_dynamic (Some (60, 40))"
    using u by (intro never_accept_dynamic_up_to_0_6) simp
  ultimately show ?thesis
    using u by (simp add: after_five_greedy_offers_eq after_one_offer_eq)
qed

subsection \<open>Scoring with continuous weights\<close>

lemma alpha_dynamic_bounds:
  assumes "0 \<le> progress" and "progress \<le> 1" and "0 \<le> nice" and "nice \<le> 1"
  shows "0.65 \<le> alpha_dynamic progress nice \<and> alpha_dynamic progress nice \<le> 0.95"
proof -
  have "0 \<le> progress * (1 - nice)"
    using assms by simp
  moreover have "progress * (1 - nice) \<le> 1 * 1"
    using assms by (intro mult_mono) auto
  ultimately show ?thesis
    by (simp add: alpha_dynamic_def max_def)
qed

lemma convex_score_bounds:
  fixes a u v g :: real
  assumes "0 \<le> a" "a \<le> 1" "0 \<le> u" "u \<le> 1" "0 \<le> v" "v \<le> 1" "0 \<le> g" "g \<le> 1"
  shows "0 \<le> a * u + (1 - a) * v * (1 - g) \<and> a * u + (1 - a) * v * (1 - g) \<le> 1"
proof -
  have vg0: "0 \<le> v * (1 - g)"
    using assms by simp
  have "v * (1 - g) \<le> 1 * 1"
    using assms by (intro mult_mono) auto
  then have vg1: "v * (1 - g) \<le> 1"
    by simp
  have "a * u \<le> a * 1"
    using assms by (intro mult_left_mono) auto
  moreover have "(1 - a) * (v * (1 - g)) \<le> (1 - a) * 1"
    using assms vg1 by (intro mult_left_mono) auto
  moreover have "0 \<le> a * u"
    using assms by simp
  moreover have "0 \<le> (1 - a) * (v * (1 - g))"
    using assms vg0 by simp
  ultimately show ?thesis
    by (simp add: mult.assoc)
qed

text \<open>
  C10. In the agent with continuous weights, when the own utility and the predicted utility of
  the bid lie in \<open>[0, 1]\<close>, both weights lie in \<open>[0, 1]\<close> and the progress lies in \<open>[0, 1]\<close>,
  the trade-off weight \<^verbatim>\<open>alpha\<close> lies in \<open>[0.65, 0.95]\<close> and the score lies in \<open>[0, 1]\<close>.
\<close>

theorem score_bid_dynamic_bounded:
  assumes "0 \<le> profile bid" and "profile bid \<le> 1"
    and "\<And>m. dyn_opponent_model s = Some m \<Longrightarrow>
           0 \<le> get_predicted_utility om m bid \<and> get_predicted_utility om m bid \<le> 1"
    and "0 \<le> greedy_weight s" and "greedy_weight s \<le> 1"
    and "0 \<le> nice_weight s" and "nice_weight s \<le> 1"
    and "0 \<le> progress" and "progress \<le> 1"
  shows "0 \<le> score_bid_dynamic profile om progress s bid \<and>
         score_bid_dynamic profile om progress s bid \<le> 1 \<and>
         0.65 \<le> alpha_dynamic progress (nice_weight s) \<and>
         alpha_dynamic progress (nice_weight s) \<le> 0.95"
proof -
  define v where
    "v = (case dyn_opponent_model s of None \<Rightarrow> 0 | Some m \<Rightarrow> get_predicted_utility om m bid)"
  have v: "0 \<le> v \<and> v \<le> 1"
    using assms(3) by (cases "dyn_opponent_model s") (simp_all add: v_def)
  have a: "0.65 \<le> alpha_dynamic progress (nice_weight s) \<and>
           alpha_dynamic progress (nice_weight s) \<le> 0.95"
    using assms by (intro alpha_dynamic_bounds)
  then have a01: "0 \<le> alpha_dynamic progress (nice_weight s)"
    "alpha_dynamic progress (nice_weight s) \<le> 1"
    by simp_all
  have "score_bid_dynamic profile om progress s bid =
          alpha_dynamic progress (nice_weight s) * profile bid +
          (1 - alpha_dynamic progress (nice_weight s)) * v * (1 - greedy_weight s)"
    by (simp add: score_bid_dynamic_def v_def Let_def)
  moreover have
    "0 \<le> alpha_dynamic progress (nice_weight s) * profile bid +
          (1 - alpha_dynamic progress (nice_weight s)) * v * (1 - greedy_weight s) \<and>
     alpha_dynamic progress (nice_weight s) * profile bid +
          (1 - alpha_dynamic progress (nice_weight s)) * v * (1 - greedy_weight s) \<le> 1"
    using a01 assms(1,2,4,5) v by (intro convex_score_bounds) auto
  ultimately show ?thesis
    using a by simp
qed

theorem score_bid_dynamic_bounded_witness:
  "0 \<le> score_bid_dynamic example_profile example_model 0.5 after_five_greedy_offers_dynamic (80, 100) \<and>
   score_bid_dynamic example_profile example_model 0.5 after_five_greedy_offers_dynamic (80, 100) \<le> 1 \<and>
   0.65 \<le> alpha_dynamic 0.5 (nice_weight after_five_greedy_offers_dynamic) \<and>
   alpha_dynamic 0.5 (nice_weight after_five_greedy_offers_dynamic) \<le> 0.95"
proof -
  have u: "0 \<le> example_profile (80, 100)" "example_profile (80, 100) \<le> 1"
    by (simp_all add: example_profile_def)
  have v: "\<And>m. dyn_opponent_model after_five_greedy_offers_dynamic = Some m \<Longrightarrow>
             0 \<le> get_predicted_utility example_model m (80, 100) \<and>
             get_predicted_utility example_model m (80, 100) \<le> 1"
    by (simp add: example_model_def example_predicted_def)
  have w: "0 \<le> greedy_weight after_five_greedy_offers_dynamic"
    "greedy_weight after_five_greedy_offers_dynamic \<le> 1"
    "0 \<le> nice_weight after_five_greedy_offers_dynamic"
    "nice_weight after_five_greedy_offers_dynamic \<le> 1"
    by (simp_all add: after_five_greedy_offers_dynamic_eq)
  have p: "(0::real) \<le> 0.5" "(0.5::real) \<le> 1"
    by simp_all
  show ?thesis
    using score_bid_dynamic_bounded
      [where profile = example_profile and bid = "(80, 100)", OF u v w p]
    by simp
qed


subsection \<open>Acceptance after the opponent has been classified greedy\<close>

text \<open>
  C1, as the code has it. Five offers whose predicted utility is 0.95 each, recorded from an
  empty history, leave the opponent classified greedy. From then on a received offer whose
  own utility is 0.68 is accepted at every progress, hence at 0.3 as well as at 0.995: it
  passes the test \<^verbatim>\<open>opponent_is_greedy and offered_util > 0.65\<close>, which comes before the
  graduated last resort. The last resort decides offers between 0.6 and 0.65: an offer worth
  0.62 is refused at progress 0.3 and accepted at progress 0.995.
\<close>

theorem greedy_scenario_acceptance:
  assumes "opponent_utils s0 = []"
    and "s = foldl (opponent_action om) s0 acts"
    and "opponent_utils s = [0.95, 0.95, 0.95, 0.95, 0.95]"
    and "profile bid = 0.68"
    and "profile bid' = 0.62"
  shows "opponent_is_greedy s \<and>
         accept_condition profile om progress s (Some bid) \<and>
         \<not> accept_condition profile om 0.3 s (Some bid') \<and>
         accept_condition profile om 0.995 s (Some bid')"
proof -
  have "3 \<le> length (opponent_utils s)" and "0.87 < average (recent_window (opponent_utils s))"
    using assms(3) by (simp_all add: average_def recent_window_def)
  then have g: "opponent_is_greedy s" and m: "opponent_model s \<noteq> None"
    using run_classified [OF assms(1), of om acts] assms(2) by simp_all
  from m obtain model where model: "opponent_model s = Some model"
    by auto
  show ?thesis
    using g model assms(4,5)
    by (simp add: accept_condition_def accept_with_model_def float_0_9_def float_0_65_def
        float_0_6_def float_0_7_def)
qed

theorem greedy_scenario_acceptance_witness:
  "opponent_is_greedy after_five_greedy_offers \<and>
   accept_condition example_profile example_model 0.3 after_five_greedy_offers (Some (68, 95)) \<and>
   accept_condition example_profile example_model 0.995 after_five_greedy_offers (Some (68, 95)) \<and>
   \<not> accept_condition example_profile example_model 0.3 after_five_greedy_offers (Some (62, 95)) \<and>
   accept_condition example_profile example_model 0.995 after_five_greedy_offers (Some (62, 95))"
proof -
  have h1: "opponent_utils (BoboAgent :: (example_bid, unit) bobo_agent) = []"
    by (simp add: BoboAgent_def)
  have h2: "after_five_greedy_offers =
              foldl (opponent_action example_model) BoboAgent five_greedy_offers"
    by (simp add: after_five_greedy_offers_def)
  have h3: "opponent_utils after_five_greedy_offers = [0.95, 0.95, 0.95, 0.95, 0.95]"
    by (simp add: after_five_greedy_offers_eq)
  have h4: "example_profile (68, 95) = 0.68" and h5: "example_profile (62, 95) = 0.62"
    by (simp_all add: example_profile_def)
  show ?thesis
    using greedy_scenario_acceptance
        [where profile = example_profile and bid = "(68, 95)" and bid' = "(62, 95)"
           and progress = "0.3", OF h1 h2 h3 h4 h5]
      greedy_scenario_acceptance
        [where profile = example_profile and bid = "(68, 95)" and bid' = "(62, 95)"
           and progress = "0.995", OF h1 h2 h3 h4 h5]
    by blast
qed

text \<open>
  Against C1 as stated: after the five offers the opponent is classified greedy, the last
  received bid is worth 0.68 to the agent, and \<^verbatim>\<open>accept_condition\<close> accepts it at progress
  0.3.
\<close>

theorem greedy_scenario_refusal_counterexample:
  "opponent_utils after_five_greedy_offers = [0.95, 0.95, 0.95, 0.95, 0.95] \<and>
   opponent_is_greedy after_five_greedy_offers \<and>
   last_received_bid after_five_greedy_offers = Some (68, 95) \<and>
   example_profile (68, 95) = 0.68 \<and>
   accept_condition example_profile example_model 0.3 after_five_greedy_offers (Some (68, 95))"
  by (simp add: after_five_greedy_offers_eq accept_condition_def example_profile_def
      float_0_9_def float_0_65_def)

subsection \<open>Scoring with boolean flags\<close>

text \<open>
  C6, as the code has it. In the agent with boolean flags, once an opponent model exists, a
  bid whose predicted utility lies below \<open>0.1 - 0.08 * progress\<close> scores exactly 0 while the
  opponent is not classified greedy. The agent with continuous weights has no such floor.
\<close>

theorem score_bid_rejection_floor:
  assumes "opponent_model s = Some m"
    and "\<not> opponent_is_greedy s"
    and "get_predicted_utility om m bid < 0.1 - 0.08 * progress"
  shows "score_bid profile om progress s bid = 0"
  using assms by (simp add: score_bid_def)

theorem score_bid_rejection_floor_witness:
  "opponent_model after_one_offer = Some () \<and>
   \<not> opponent_is_greedy after_one_offer \<and>
   get_predicted_utility example_model () (100, 0) < 0.1 - 0.08 * 0.3 \<and>
   score_bid example_profile example_model 0.3 after_one_offer (100, 0) = 0"
proof -
  have h1: "opponent_model after_one_offer = Some ()"
    and h2: "\<not> opponent_is_greedy after_one_offer"
    by (simp_all add: after_one_offer_eq)
  have h3: "get_predicted_utility example_model () (100, 0) < 0.1 - 0.08 * 0.3"
    by (simp add: example_model_def example_predicted_def)
  show ?thesis
    using h1 h2 h3 score_bid_rejection_floor [where profile = example_profile, OF h1 h2 h3]
    by blast
qed

text \<open>
  Against C6 as stated: the agent with continuous weights, after one offer, has greedy weight
  0 and an opponent model that predicts 0 for the bid \<open>(100, 0)\<close>, below the floor
  \<open>0.1 - 0.08 * 0.3\<close>; the bid scores 0.86.
\<close>

theorem score_bid_dynamic_no_floor_counterexample:
  "greedy_weight after_one_offer_dynamic = 0 \<and>
   dyn_opponent_model after_one_offer_dynamic = Some () \<and>
   get_predicted_utility example_model () (100, 0) < 0.1 - 0.08 * 0.3 \<and>
   score_bid_dynamic example_profile example_model 0.3 after_one_offer_dynamic (100, 0) = 0.86"
  by (simp add: after_one_offer_dynamic_eq score_bid_dynamic_def alpha_dynamic_def
      example_model_def example_predicted_def example_profile_def)


subsection \<open>Sessions and the stored classification\<close>

text \<open>
  \<^verbatim>\<open>load_opponent_data\<close> compares the first field of each line with \<^verbatim>\<open>self.other\<close>. As long
  as no action of the opponent has arrived, \<^verbatim>\<open>self.other\<close> is \<^verbatim>\<open>None\<close> and no line matches.
\<close>

lemma find_record_no_name: "find_record None ls = None"
  by (induction ls) (simp_all add: Let_def)

lemma load_opponent_data_no_name:
  "other s = None \<Longrightarrow> load_opponent_data s storage = s"
  by (simp add: load_opponent_data_def find_record_no_name split: option.splits)

lemma settings_fresh:
  "notifyChange rt om BoboAgent storage (Settings ident) =
     (BoboAgent\<lparr>me := Some ident\<rparr>, storage, Inr None)"
  by (simp add: load_opponent_data_no_name BoboAgent_def)

lemma run_session_settings_fresh:
  "run_session om (BoboAgent, storage) ((rt, Settings ident) # events) =
     run_session om (BoboAgent\<lparr>me := Some ident\<rparr>, storage) events"
  by (simp add: settings_fresh del: notifyChange.simps)

text \<open>With the name known, the line that \<^verbatim>\<open>save_data\<close> wrote is read back.\<close>

lemma load_opponent_data_known_name:
  "load_opponent_data
     ((BoboAgent :: (example_bid, unit) bobo_agent)\<lparr>other := Some ''X''\<rparr>)
     (snd after_first_session) =
   (BoboAgent :: (example_bid, unit) bobo_agent)\<lparr>other := Some ''X'', opponent_is_greedy := True\<rparr>"
  by (simp add: after_first_session_eq load_opponent_data_def readlines_def BoboAgent_def
      strip_def is_space_def Let_def)

text \<open>
  C2 fails on the code. The first session against \<^verbatim>\<open>X_2\<close> ends with the opponent classified
  greedy and appends the line \<^verbatim>\<open>X,True,False\<close> to the storage. A second session on that
  storage starts unclassified, and is still unclassified after the first offer of \<^verbatim>\<open>X_2\<close> has
  made the name known: the only call of \<^verbatim>\<open>load_opponent_data\<close> is the one in the handler of
  the settings, where \<^verbatim>\<open>self.other\<close> is still \<^verbatim>\<open>None\<close>. Whatever the storage holds, a fresh
  agent leaves that handler with the flags of \<^verbatim>\<open>__init__\<close>.
\<close>

theorem classification_not_restored:
  "opponent_is_greedy (fst after_first_session) \<and>
   other (fst after_first_session) = Some ''X'' \<and>
   snd after_first_session = Some (''X,True,False'' @ [CHR 0x0A]) \<and>
   \<not> opponent_is_greedy (second_session second_session_start) \<and>
   other (second_session second_session_first_offer) = Some ''X'' \<and>
   \<not> opponent_is_greedy (second_session second_session_first_offer) \<and>
   fst (notifyChange rt om BoboAgent storage (Settings ident)) = BoboAgent\<lparr>me := Some ident\<rparr>"
proof -
  have first: "opponent_is_greedy (fst after_first_session) \<and>
               other (fst after_first_session) = Some ''X'' \<and>
               snd after_first_session = Some (''X,True,False'' @ [CHR 0x0A])"
    by (simp add: after_first_session_eq)
  have "second_session second_session_start = BoboAgent\<lparr>me := Some ''bobo_1''\<rparr>"
    by (simp add: second_session_def second_session_start_def load_opponent_data_no_name
        BoboAgent_def)
  then have start: "\<not> opponent_is_greedy (second_session second_session_start)"
    by (simp add: BoboAgent_def)
  have "second_session second_session_first_offer =
     \<lparr>me = Some ''bobo_1'', other = Some ''X'', opponent_utils = [0.95],
      opponent_is_greedy = False, opponent_is_nice = False, last_received_bid = Some (68, 95),
      opponent_model = Some ()\<rparr>"
    by (simp add: second_session_def second_session_first_offer_def second_session_start_def
        load_opponent_data_no_name BoboAgent_def rsplit_head_X Let_def
        example_model_def example_predicted_def example_update_def)
  then have offer: "other (second_session second_session_first_offer) = Some ''X'' \<and>
                    \<not> opponent_is_greedy (second_session second_session_first_offer)"
    by simp
  have fresh: "fst (notifyChange rt om BoboAgent storage (Settings ident)) =
               BoboAgent\<lparr>me := Some ident\<rparr>"
    by (simp add: settings_fresh del: notifyChange.simps)
  from first start offer fresh show ?thesis
    by blast
qed

text \<open>
  In a session the greedy flag implies an opponent model: the handler of the settings
  leaves the flag of a fresh agent unset, and afterwards only an offer sets it.
\<close>

lemma notifyChange_greedy_has_model:
  assumes "opponent_is_greedy s \<longrightarrow> opponent_model s \<noteq> None"
    and "\<And>ident. d \<noteq> Settings ident"
  shows "opponent_is_greedy (fst (notifyChange rt om s storage d)) \<longrightarrow>
         opponent_model (fst (notifyChange rt om s storage d)) \<noteq> None"
proof (cases d)
  case (Settings ident)
  then show ?thesis using assms(2) by simp
next
  case (ActionDone act)
  show ?thesis
  proof (cases act)
    case (Offer actor bid)
    then show ?thesis
      using assms(1) ActionDone by (simp add: Let_def)
  next
    case (Accept actor bid)
    then show ?thesis
      using assms(1) ActionDone by simp
  qed
next
  case YourTurn
  then show ?thesis using assms(1) by (simp split: sum.splits)
next
  case Finished
  then show ?thesis using assms(1) by simp
next
  case UnknownInform
  then show ?thesis using assms(1) by simp
qed

lemma run_session_greedy_has_model:
  assumes "opponent_is_greedy s \<longrightarrow> opponent_model s \<noteq> None"
    and "\<And>rt ident. (rt, Settings ident) \<notin> set events"
  shows "opponent_is_greedy (fst (run_session om (s, storage) events)) \<longrightarrow>
         opponent_model (fst (run_session om (s, storage) events)) \<noteq> None"
  using assms
proof (induction events arbitrary: s storage)
  case Nil
  then show ?case by simp
next
  case (Cons e events)
  obtain rt d where e: "e = (rt, d)"
    by (cases e)
  obtain s' storage' sent where step: "notifyChange rt om s storage d = (s', storage', sent)"
    by (cases "notifyChange rt om s storage d")
  have "\<And>ident. d \<noteq> Settings ident"
    using Cons.prems(2) [of rt] e by auto
  then have "opponent_is_greedy s' \<longrightarrow> opponent_model s' \<noteq> None"
    using notifyChange_greedy_has_model [OF Cons.prems(1), of d rt om storage] step by simp
  moreover have "\<And>rt ident. (rt, Settings ident) \<notin> set events"
    using Cons.prems(2) by auto
  ultimately have "opponent_is_greedy (fst (run_session om (s', storage') events)) \<longrightarrow>
         opponent_model (fst (run_session om (s', storage') events)) \<noteq> None"
    by (rule Cons.IH)
  then show ?case
    by (simp add: e step)
qed

text \<open>
  C4, as the code has it. In the agent with boolean flags, in every state of a session (a
  fresh agent, the settings, then any callbacks other than settings), a greedy classification
  makes \<^verbatim>\<open>score_bid\<close> return the own utility of the bid, so that bids of equal own utility
  score equally whatever is predicted for the opponent. In the agent with continuous weights
  the predicted utility is multiplied by \<open>1 - greedy_weight\<close>; it drops out only when the
  weight is 1, and the score is then \<^verbatim>\<open>alpha\<close> times the own utility.
\<close>

theorem score_bid_greedy_own_utility:
  assumes "s = fst (run_session om (BoboAgent, storage) ((rt, Settings ident) # events))"
    and "\<And>rt' ident'. (rt', Settings ident') \<notin> set events"
    and "opponent_is_greedy s"
    and "greedy_weight d = 1"
  shows "score_bid profile om progress s bid = profile bid \<and>
         score_bid_dynamic profile om progress d bid =
           alpha_dynamic progress (nice_weight d) * profile bid"
proof
  let ?s0 = "BoboAgent\<lparr>me := Some ident\<rparr> :: ('a, 'b) bobo_agent"
  have "opponent_is_greedy ?s0 \<longrightarrow> opponent_model ?s0 \<noteq> None"
    by (simp add: BoboAgent_def)
  then have "opponent_is_greedy (fst (run_session om (?s0, storage) events)) \<longrightarrow>
             opponent_model (fst (run_session om (?s0, storage) events)) \<noteq> None"
    using assms(2) by (rule run_session_greedy_has_model)
  then have "opponent_is_greedy s \<longrightarrow> opponent_model s \<noteq> None"
    unfolding assms(1) run_session_settings_fresh .
  then show "score_bid profile om progress s bid = profile bid"
    using assms(3) by (auto simp add: score_bid_def Let_def)
next
  show "score_bid_dynamic profile om progress d bid =
          alpha_dynamic progress (nice_weight d) * profile bid"
    using assms(4) by (simp add: score_bid_dynamic_def Let_def)
qed

theorem score_bid_greedy_own_utility_witness:
  "opponent_is_greedy (fst after_first_session) \<and>
   score_bid example_profile example_model 0.3 (fst after_first_session) (80, 0) = 0.8 \<and>
   score_bid example_profile example_model 0.3 (fst after_first_session) (80, 100) = 0.8 \<and>
   greedy_weight after_three_zero_offers_dynamic = 1 \<and>
   score_bid_dynamic example_profile example_model 0.3 after_three_zero_offers_dynamic (80, 0) =
     0.76 \<and>
   score_bid_dynamic example_profile example_model 0.3 after_three_zero_offers_dynamic (80, 100) =
     0.76"
proof -
  have h1: "fst after_first_session =
              fst (run_session example_model (BoboAgent, None)
                     ((example_runtime 0, Settings ''bobo_1'') # offers_and_finish))"
    by (simp only: after_first_session_def first_session_def)
  have h2: "\<And>rt' ident'. (rt', Settings ident') \<notin> set offers_and_finish"
    by (auto simp add: offers_and_finish_def five_greedy_offers_def)
  have h3: "opponent_is_greedy (fst after_first_session)"
    by (simp add: after_first_session_eq)
  have h4: "greedy_weight after_three_zero_offers_dynamic = 1"
    by (simp add: after_three_zero_offers_dynamic_eq)
  have a: "alpha_dynamic 0.3 (nice_weight after_three_zero_offers_dynamic) = 0.95"
    by (simp add: after_three_zero_offers_dynamic_eq alpha_dynamic_def)
  have u: "example_profile (80, 0) = 0.8" "example_profile (80, 100) = 0.8"
    by (simp_all add: example_profile_def)
  show ?thesis
    using h3 h4
      score_bid_greedy_own_utility
        [where profile = example_profile and bid = "(80, 0)" and progress = "0.3",
         OF h1 h2 h3 h4, unfolded a u]
      score_bid_greedy_own_utility
        [where profile = example_profile and bid = "(80, 100)" and progress = "0.3",
         OF h1 h2 h3 h4, unfolded a u]
    by simp
qed

text \<open>
  Against C4 as stated: after the five offers with predicted utility 0.95 the agent with
  continuous weights has greedy weight 0.855, and of two bids that are both worth 0.8 to
  the agent the one that is predicted to please the opponent scores higher.
\<close>

theorem score_bid_dynamic_greedy_counterexample:
  "greedy_weight after_five_greedy_offers_dynamic = 0.855 \<and>
   example_profile (80, 0) = example_profile (80, 100) \<and>
   score_bid_dynamic example_profile example_model 0.3 after_five_greedy_offers_dynamic (80, 0)
     < score_bid_dynamic example_profile example_model 0.3 after_five_greedy_offers_dynamic
         (80, 100)"
  by (simp add: after_five_greedy_offers_dynamic_eq score_bid_dynamic_def alpha_dynamic_def
      example_model_def example_predicted_def example_profile_def)


subsection \<open>The bid search\<close>

text \<open>
  The sampling loop, for any utilities \<open>u\<close>, scores \<open>sc\<close> and candidates \<open>c\<close> of the
  iterations \<open>js\<close> and any floor \<open>m\<close>. Started on \<^verbatim>\<open>(0.0, None)\<close> it either keeps that pair,
  and then no iteration had a candidate at or above the floor with a positive score, or it
  ends on such a candidate, whose score no candidate at or above the floor exceeds.
\<close>

lemma sampling_loop:
  fixes u sc :: "nat \<Rightarrow> real" and c :: "nat \<Rightarrow> 'b" and m :: real
  defines "step \<equiv> \<lambda>best i. if u i < m then best
                            else if sc i > fst best then (sc i, Some (c i)) else best"
  shows "(foldl step (0, None) js = (0, None) \<and> (\<forall>i \<in> set js. \<not> (m \<le> u i \<and> 0 < sc i))) \<or>
         (\<exists>i \<in> set js. foldl step (0, None) js = (sc i, Some (c i)) \<and> m \<le> u i \<and> 0 < sc i \<and>
            (\<forall>j \<in> set js. m \<le> u j \<longrightarrow> sc j \<le> sc i))"
proof (induction js rule: rev_induct)
  case Nil
  then show ?case by simp
next
  case (snoc k js)
  let ?r = "foldl step (0, None) js"
  have unfold: "foldl step (0, None) (js @ [k]) = step ?r k"
    by simp
  from snoc.IH show ?case
  proof
    assume none: "?r = (0, None) \<and> (\<forall>i \<in> set js. \<not> (m \<le> u i \<and> 0 < sc i))"
    show ?thesis
    proof (cases "m \<le> u k \<and> 0 < sc k")
      case True
      then have "step ?r k = (sc k, Some (c k))"
        using none by (simp add: step_def)
      moreover have "\<forall>j \<in> set (js @ [k]). m \<le> u j \<longrightarrow> sc j \<le> sc k"
        using none True by (auto simp: not_less)
      ultimately show ?thesis
        unfolding unfold using True by auto
    next
      case False
      then have "step ?r k = (0, None)"
        using none by (auto simp add: step_def)
      then show ?thesis
        unfolding unfold using none False by auto
    qed
  next
    assume "\<exists>i \<in> set js. ?r = (sc i, Some (c i)) \<and> m \<le> u i \<and> 0 < sc i \<and>
              (\<forall>j \<in> set js. m \<le> u j \<longrightarrow> sc j \<le> sc i)"
    then obtain i where i: "i \<in> set js" "?r = (sc i, Some (c i))" "m \<le> u i" "0 < sc i"
      "\<forall>j \<in> set js. m \<le> u j \<longrightarrow> sc j \<le> sc i"
      by blast
    show ?thesis
    proof (cases "m \<le> u k \<and> sc i < sc k")
      case True
      then have "step ?r k = (sc k, Some (c k))"
        using i(2) by (simp add: step_def)
      moreover have "0 < sc k"
        using True i(4) by simp
      moreover have "\<forall>j \<in> set (js @ [k]). m \<le> u j \<longrightarrow> sc j \<le> sc k"
        using i(5) True by fastforce
      ultimately show ?thesis
        unfolding unfold using True by auto
    next
      case False
      then have "step ?r k = (sc i, Some (c i))"
        using i(2) by (auto simp add: step_def)
      moreover have "\<forall>j \<in> set (js @ [k]). m \<le> u j \<longrightarrow> sc j \<le> sc i"
        using i(5) False by fastforce
      ultimately show ?thesis
        unfolding unfold using i(1,3,4) by auto
    qed
  qed
qed

lemma find_bid_step_unfold:
  "find_bid_step profile om s all_bids m rnd clock =
     (\<lambda>best i. if profile (random_bid all_bids (rnd i)) < m then best
                else if score_bid profile om (clock i) s (random_bid all_bids (rnd i)) > fst best
                     then (score_bid profile om (clock i) s (random_bid all_bids (rnd i)),
                           Some (random_bid all_bids (rnd i)))
                     else best)"
  by (intro ext) (simp add: find_bid_step_def Let_def)

lemma find_bid_step_dynamic_unfold:
  "find_bid_step_dynamic profile om s all_bids m rnd clock =
     (\<lambda>best i. if profile (random_bid all_bids (rnd i)) < m then best
                else if score_bid_dynamic profile om (clock i) s (random_bid all_bids (rnd i))
                          > fst best
                     then (score_bid_dynamic profile om (clock i) s (random_bid all_bids (rnd i)),
                           Some (random_bid all_bids (rnd i)))
                     else best)"
  by (intro ext) (simp add: find_bid_step_dynamic_def Let_def)

text \<open>
  \<^verbatim>\<open>find_bid\<close> of the agent with boolean flags, on a bid space that is not empty: it returns
  a sampled bid at or above the floor whose score is positive and maximal among the sampled
  bids at or above the floor, or, when no sampled bid is at or above the floor with a
  positive score, the bid of the extra draw.
\<close>

lemma find_bid_result:
  assumes "all_bids \<noteq> []"
  shows "\<exists>b. find_bid profile om s all_bids progress rnd clock = Inr b \<and>
           ((\<exists>i<500. b = random_bid all_bids (rnd i) \<and> min_util progress \<le> profile b \<and>
                0 < score_bid profile om (clock i) s b \<and>
                (\<forall>j<500. min_util progress \<le> profile (random_bid all_bids (rnd j)) \<longrightarrow>
                   score_bid profile om (clock j) s (random_bid all_bids (rnd j))
                     \<le> score_bid profile om (clock i) s b)) \<or>
            (b = random_bid all_bids (rnd 500) \<and>
             (\<forall>i<500. \<not> (min_util progress \<le> profile (random_bid all_bids (rnd i)) \<and>
                          0 < score_bid profile om (clock i) s (random_bid all_bids (rnd i))))))"
proof -
  let ?m = "min_util progress"
  let ?u = "\<lambda>i. profile (random_bid all_bids (rnd i))"
  let ?sc = "\<lambda>i. score_bid profile om (clock i) s (random_bid all_bids (rnd i))"
  let ?c = "\<lambda>i. random_bid all_bids (rnd i)"
  let ?r = "foldl (find_bid_step profile om s all_bids ?m rnd clock) (0, None) [0..<500]"
  have res: "find_bid profile om s all_bids progress rnd clock =
          (case snd ?r of None \<Rightarrow> Inr (random_bid all_bids (rnd 500)) | Some b \<Rightarrow> Inr b)"
    using assms by (simp add: find_bid_def Let_def)
  have "(?r = (0, None) \<and> (\<forall>i \<in> set [0..<500]. \<not> (?m \<le> ?u i \<and> 0 < ?sc i))) \<or>
        (\<exists>i \<in> set [0..<500]. ?r = (?sc i, Some (?c i)) \<and> ?m \<le> ?u i \<and> 0 < ?sc i \<and>
           (\<forall>j \<in> set [0..<500]. ?m \<le> ?u j \<longrightarrow> ?sc j \<le> ?sc i))"
    unfolding find_bid_step_unfold
    by (rule sampling_loop [of ?u ?m ?sc ?c "[0..<500]"])
  then show ?thesis
  proof
    assume "?r = (0, None) \<and> (\<forall>i \<in> set [0..<500]. \<not> (?m \<le> ?u i \<and> 0 < ?sc i))"
    then show ?thesis
      unfolding res by simp
  next
    assume "\<exists>i \<in> set [0..<500]. ?r = (?sc i, Some (?c i)) \<and> ?m \<le> ?u i \<and> 0 < ?sc i \<and>
              (\<forall>j \<in> set [0..<500]. ?m \<le> ?u j \<longrightarrow> ?sc j \<le> ?sc i)"
    then obtain i where i: "i < 500" "?r = (?sc i, Some (?c i))" "?m \<le> ?u i" "0 < ?sc i"
      "\<forall>j<500. ?m \<le> ?u j \<longrightarrow> ?sc j \<le> ?sc i"
      by auto
    have "find_bid profile om s all_bids progress rnd clock = Inr (?c i)"
      unfolding res i(2) by simp
    then show ?thesis
      using i(1,3,4,5) by blast
  qed
qed

text \<open>
  With continuous weights a bid at or above the floor always has a positive score: the floor
  is above 0.7 while the progress is at most 1, \<^verbatim>\<open>alpha\<close> is at least 0.6, and the term of the
  opponent is not negative.
\<close>

lemma score_bid_dynamic_positive:
  assumes "min_util_dynamic progress \<le> profile bid" and "progress \<le> 1"
    and "0 \<le> p" and "nice_weight d \<le> 1" and "greedy_weight d \<le> 1"
    and "\<And>m. dyn_opponent_model d = Some m \<Longrightarrow> 0 \<le> get_predicted_utility om m bid"
  shows "0 < score_bid_dynamic profile om p d bid"
proof -
  define v where
    "v = (case dyn_opponent_model d of None \<Rightarrow> 0 | Some m \<Rightarrow> get_predicted_utility om m bid)"
  define a where "a = alpha_dynamic p (nice_weight d)"
  have v: "0 \<le> v"
    using assms(6) by (cases "dyn_opponent_model d") (simp_all add: v_def)
  have "0 \<le> p * (1 - nice_weight d)"
    using assms(3,4) by simp
  then have a: "0.6 \<le> a" "a \<le> 1"
    by (simp_all add: a_def alpha_dynamic_def max_def)
  have u: "0.7 < profile bid"
    using assms(1,2) by (simp add: min_util_dynamic_def)
  have "0 < a * profile bid"
    using a u by simp
  moreover have "0 \<le> (1 - a) * v * (1 - greedy_weight d)"
    using a v assms(5) by simp
  moreover have "score_bid_dynamic profile om p d bid =
                   a * profile bid + (1 - a) * v * (1 - greedy_weight d)"
    by (simp add: score_bid_dynamic_def v_def a_def Let_def)
  ultimately show ?thesis
    by simp
qed

lemma find_bid_dynamic_result:
  assumes "all_bids \<noteq> []" and "progress \<le> 1" and "\<And>i. 0 \<le> clock i"
    and "nice_weight d \<le> 1" and "greedy_weight d \<le> 1"
    and "\<And>m b. 0 \<le> get_predicted_utility om m b"
  shows "\<exists>b. find_bid_dynamic profile om d all_bids progress rnd clock = Inr b \<and>
           (min_util_dynamic progress \<le> profile b \<or>
            (b = random_bid all_bids (rnd 500) \<and>
             (\<forall>i<500. profile (random_bid all_bids (rnd i)) < min_util_dynamic progress)))"
proof -
  let ?m = "min_util_dynamic progress"
  let ?u = "\<lambda>i. profile (random_bid all_bids (rnd i))"
  let ?sc = "\<lambda>i. score_bid_dynamic profile om (clock i) d (random_bid all_bids (rnd i))"
  let ?c = "\<lambda>i. random_bid all_bids (rnd i)"
  let ?r = "foldl (find_bid_step_dynamic profile om d all_bids ?m rnd clock) (0, None) [0..<500]"
  have res: "find_bid_dynamic profile om d all_bids progress rnd clock =
          (case snd ?r of None \<Rightarrow> Inr (random_bid all_bids (rnd 500)) | Some b \<Rightarrow> Inr b)"
    using assms(1) by (simp add: find_bid_dynamic_def Let_def)
  have pos: "0 < ?sc i" if "?m \<le> ?u i" for i
    using that assms(2) assms(3) [of i] assms(4,5) assms(6)
    by (intro score_bid_dynamic_positive [where progress = progress]) auto
  have "(?r = (0, None) \<and> (\<forall>i \<in> set [0..<500]. \<not> (?m \<le> ?u i \<and> 0 < ?sc i))) \<or>
        (\<exists>i \<in> set [0..<500]. ?r = (?sc i, Some (?c i)) \<and> ?m \<le> ?u i \<and> 0 < ?sc i \<and>
           (\<forall>j \<in> set [0..<500]. ?m \<le> ?u j \<longrightarrow> ?sc j \<le> ?sc i))"
    unfolding find_bid_step_dynamic_unfold
    by (rule sampling_loop [of ?u ?m ?sc ?c "[0..<500]"])
  then show ?thesis
  proof
    assume none: "?r = (0, None) \<and> (\<forall>i \<in> set [0..<500]. \<not> (?m \<le> ?u i \<and> 0 < ?sc i))"
    then have "\<forall>i<500. ?u i < ?m"
      using pos by force
    then show ?thesis
      unfolding res using none by simp
  next
    assume "\<exists>i \<in> set [0..<500]. ?r = (?sc i, Some (?c i)) \<and> ?m \<le> ?u i \<and> 0 < ?sc i \<and>
              (\<forall>j \<in> set [0..<500]. ?m \<le> ?u j \<longrightarrow> ?sc j \<le> ?sc i)"
    then obtain i where i: "?r = (?sc i, Some (?c i))" "?m \<le> ?u i"
      by auto
    have "find_bid_dynamic profile om d all_bids progress rnd clock = Inr (?c i)"
      unfolding res i(1) by simp
    then show ?thesis
      using i(2) by blast
  qed
qed

text \<open>
  C3, as the code has it, on a bid space that is not empty. \<^verbatim>\<open>find_bid\<close> of the agent with
  boolean flags returns a sampled bid whose own utility is at least the floor
  \<open>0.85 * (1 - 0.25 * progress)\<close> and whose score is positive, or else no sampled bid was at
  or above the floor with a positive score, and the bid of the extra, uniformly random draw
  is returned: a sampled bid at or above the floor is not retained when it scores 0.
  \<^verbatim>\<open>find_bid\<close> of the agent with continuous weights returns a bid whose own utility is at
  least the floor \<open>0.85 * (1 - 0.15 * progress)\<close>, or else none of the 500 sampled bids was at
  or above the floor and the bid of the extra draw is returned; this holds when the progress
  is at most 1, the clock is not negative, the weights are at most 1 and the predicted
  utilities are not negative.
\<close>

theorem find_bid_floor_or_fallback:
  assumes "all_bids \<noteq> []"
    and "progress' \<le> 1" and "\<And>i. 0 \<le> clock' i"
    and "nice_weight d \<le> 1" and "greedy_weight d \<le> 1"
    and "\<And>m b. 0 \<le> get_predicted_utility om m b"
  shows "(\<exists>b. find_bid profile om s all_bids progress rnd clock = Inr b \<and>
            ((\<exists>i<500. b = random_bid all_bids (rnd i) \<and> min_util progress \<le> profile b \<and>
                 0 < score_bid profile om (clock i) s b) \<or>
             (b = random_bid all_bids (rnd 500) \<and>
              (\<forall>i<500. \<not> (min_util progress \<le> profile (random_bid all_bids (rnd i)) \<and>
                 0 < score_bid profile om (clock i) s (random_bid all_bids (rnd i))))))) \<and>
         (\<exists>b. find_bid_dynamic profile om d all_bids progress' rnd' clock' = Inr b \<and>
            (min_util_dynamic progress' \<le> profile b \<or>
             (b = random_bid all_bids (rnd' 500) \<and>
              (\<forall>i<500. profile (random_bid all_bids (rnd' i)) < min_util_dynamic progress'))))"
proof
  show "\<exists>b. find_bid profile om s all_bids progress rnd clock = Inr b \<and>
            ((\<exists>i<500. b = random_bid all_bids (rnd i) \<and> min_util progress \<le> profile b \<and>
                 0 < score_bid profile om (clock i) s b) \<or>
             (b = random_bid all_bids (rnd 500) \<and>
              (\<forall>i<500. \<not> (min_util progress \<le> profile (random_bid all_bids (rnd i)) \<and>
                 0 < score_bid profile om (clock i) s (random_bid all_bids (rnd i))))))"
    using find_bid_result [OF assms(1), of profile om s progress rnd clock] by blast
next
  show "\<exists>b. find_bid_dynamic profile om d all_bids progress' rnd' clock' = Inr b \<and>
            (min_util_dynamic progress' \<le> profile b \<or>
             (b = random_bid all_bids (rnd' 500) \<and>
              (\<forall>i<500. profile (random_bid all_bids (rnd' i)) < min_util_dynamic progress')))"
    using assms by (intro find_bid_dynamic_result) auto
qed

text \<open>
  Both agents on the bid space \<open>[(100, 0), (10, 50)]\<close>, with every draw of the loop hitting
  the first bid: the fresh agent with boolean flags proposes it, and the agent with
  continuous weights proposes a bid at or above its floor.
\<close>

theorem find_bid_floor_or_fallback_witness:
  "find_bid example_profile example_model BoboAgent [(100, 0), (10, 50)] 0 (loop_then 2 3)
     (still_clock 0) = Inr (100, 0) \<and>
   (\<exists>b. find_bid_dynamic example_profile example_model after_five_greedy_offers_dynamic
           [(100, 0), (10, 50)] 0.3 (loop_then 2 3) (still_clock 0.3) = Inr b \<and>
         min_util_dynamic 0.3 \<le> example_profile b)"
proof -
  have h1: "[(100, 0), (10, 50) :: example_bid] \<noteq> []"
    by simp
  have h2: "(0.3 :: real) \<le> 1"
    by simp
  have h3: "\<And>i. 0 \<le> still_clock 0.3 i"
    by (simp add: still_clock_def)
  have h4: "nice_weight after_five_greedy_offers_dynamic \<le> 1"
    and h5: "greedy_weight after_five_greedy_offers_dynamic \<le> 1"
    by (simp_all add: after_five_greedy_offers_dynamic_eq)
  have h6: "\<And>m b. 0 \<le> get_predicted_utility example_model m b"
    by (simp add: example_model_def example_predicted_def)
  note both =
    find_bid_floor_or_fallback
      [where profile = example_profile and om = example_model and s = BoboAgent
         and progress = 0 and rnd = "loop_then 2 3" and clock = "still_clock 0"
         and d = after_five_greedy_offers_dynamic and progress' = "0.3"
         and rnd' = "loop_then 2 3" and clock' = "still_clock 0.3",
       OF h1 h2 h3 h4 h5 h6]
  have first: "min_util 0 \<le> example_profile (random_bid [(100, 0), (10, 50)] (loop_then 2 3 0)) \<and>
               0 < score_bid example_profile example_model (still_clock 0 0) BoboAgent
                     (random_bid [(100, 0), (10, 50)] (loop_then 2 3 0))"
    by (simp add: example_draws min_util_def example_profile_def score_bid_def BoboAgent_def
        time_pressure_def still_clock_def)
  from both obtain b where b:
    "find_bid example_profile example_model BoboAgent [(100, 0), (10, 50)] 0 (loop_then 2 3)
       (still_clock 0) = Inr b"
    "(\<exists>i<500. b = random_bid [(100, 0), (10, 50)] (loop_then 2 3 i)) \<or>
     (\<forall>i<500. \<not> (min_util 0 \<le>
                    example_profile (random_bid [(100, 0), (10, 50)] (loop_then 2 3 i)) \<and>
                  0 < score_bid example_profile example_model (still_clock 0 i) BoboAgent
                        (random_bid [(100, 0), (10, 50)] (loop_then 2 3 i))))"
    by blast
  from b(2) first have "\<exists>i<500. b = random_bid [(100, 0), (10, 50)] (loop_then 2 3 i)"
    by auto
  then have "b = (100, 0)"
    by (auto simp add: example_draws)
  then have a: "find_bid example_profile example_model BoboAgent [(100, 0), (10, 50)] 0
                  (loop_then 2 3) (still_clock 0) = Inr (100, 0)"
    using b(1) by simp
  have above: "\<not> example_profile (random_bid [(100, 0), (10, 50)] (loop_then 2 3 0))
                   < min_util_dynamic 0.3"
    by (simp add: example_draws min_util_dynamic_def example_profile_def)
  have "\<not> (\<forall>i<500. example_profile (random_bid [(100, 0), (10, 50)] (loop_then 2 3 i))
              < min_util_dynamic 0.3)"
  proof
    assume "\<forall>i<500. example_profile (random_bid [(100, 0), (10, 50)] (loop_then 2 3 i))
              < min_util_dynamic 0.3"
    then have "example_profile (random_bid [(100, 0), (10, 50)] (loop_then 2 3 0))
                 < min_util_dynamic 0.3"
      by simp
    with above show False
      by simp
  qed
  with both have "\<exists>b. find_bid_dynamic example_profile example_model
                         after_five_greedy_offers_dynamic [(100, 0), (10, 50)] 0.3
                         (loop_then 2 3) (still_clock 0.3) = Inr b \<and>
                       min_util_dynamic 0.3 \<le> example_profile b"
    by blast
  with a show ?thesis
    by simp
qed

text \<open>
  Against C3 as stated: an opponent model exists, the opponent is not classified greedy, and
  every draw of the loop hits the bid \<open>(100, 0)\<close>. It is at the floor and above, yet it scores
  0 because the predicted utility 0 lies below the rejection floor; so no bid is retained,
  and the extra draw returns \<open>(10, 50)\<close>, whose own utility 0.1 lies below the floor 0.85.
\<close>

theorem find_bid_fallback_counterexample:
  "find_bid example_profile example_model after_one_offer [(100, 0), (10, 50)] 0
     (loop_then 2 3) (still_clock 0) = Inr (10, 50) \<and>
   example_profile (10, 50) < min_util 0 \<and>
   random_bid [(100, 0), (10, 50)] (loop_then 2 3 0) = ((100, 0) :: example_bid) \<and>
   min_util 0 \<le> example_profile (100, 0)"
proof -
  have pruned: "\<And>i. score_bid example_profile example_model (still_clock 0 i) after_one_offer
                     (100, 0) = 0"
    by (simp add: score_bid_def after_one_offer_eq example_model_def example_predicted_def
        still_clock_def)
  obtain b where b: "find_bid example_profile example_model after_one_offer
                       [(100, 0), (10, 50)] 0 (loop_then 2 3) (still_clock 0) = Inr b"
    and alt: "(\<exists>i<500. b = random_bid [(100, 0), (10, 50)] (loop_then 2 3 i) \<and>
                0 < score_bid example_profile example_model (still_clock 0 i) after_one_offer b) \<or>
              b = random_bid [(100, 0), (10, 50)] (loop_then 2 3 500)"
    using find_bid_result [of "[(100, 0), (10, 50)]" example_profile example_model
        after_one_offer 0 "loop_then 2 3" "still_clock 0"]
    by auto
  from alt have "b = (10, 50)"
    by (auto simp add: example_draws pruned)
  then show ?thesis
    using b by (simp add: example_draws example_profile_def min_util_def)
qed

end
